theory Spec2Isabelle
  imports Main "HOL-Library.Word"
begin

unbundle bit_operations_syntax

section \<open>Data model\<close>

text \<open>
  The embedded program is \<^verbatim>\<open>handlers.c\<close> of the OpenFlow state manager. The handlers
  work on LOCI wire objects, the flow table \<^verbatim>\<open>ind_core_ft\<close> and the forwarding, port and
  connection modules; none of those is among the sources. What the handlers read of a
  wire object is a field of a record here, what they call in another module is a field
  of the record \<open>env\<close> (the answer the module gives), and the flow-table primitives are
  modelled from the specification, each marked as such.
\<close>

text \<open>
  Modelled from the spec: the internal error kinds (\<^verbatim>\<open>indigo_error_t\<close> is declared in a
  header that is not among the sources). Specification 7 lists them; \<open>INDIGO_ERROR_NONE\<close>
  is 0 and every other kind is negative, so the tests \<^verbatim>\<open>rv < 0\<close> and
  \<^verbatim>\<open>rv != INDIGO_ERROR_NONE\<close> of the handlers are both "is not \<open>INDIGO_ERROR_NONE\<close>".
\<close>

datatype indigo_error =
    INDIGO_ERROR_NONE
  | INDIGO_ERROR_PARAM
  | INDIGO_ERROR_RESOURCE
  | INDIGO_ERROR_NOT_FOUND
  | INDIGO_ERROR_RANGE
  | INDIGO_ERROR_NOT_SUPPORTED
  | INDIGO_ERROR_UNKNOWN

text \<open>The wire versions the specification covers (\<^verbatim>\<open>of_version_t\<close> is LOCI's).\<close>

datatype of_version = OF_VERSION_1_0 | OF_VERSION_1_1 | OF_VERSION_1_2 | OF_VERSION_1_3

text \<open>The wire number of a version, for the comparisons \<^verbatim>\<open>version > OF_VERSION_1_0\<close> etc.\<close>

fun wire_number :: "of_version \<Rightarrow> nat" where
  "wire_number OF_VERSION_1_0 = 1"
| "wire_number OF_VERSION_1_1 = 2"
| "wire_number OF_VERSION_1_2 = 3"
| "wire_number OF_VERSION_1_3 = 4"

datatype match_mode = OF_MATCH_NON_STRICT | OF_MATCH_STRICT | OF_MATCH_OVERLAP

datatype flow_removed_reason =
    INDIGO_FLOW_REMOVED_IDLE_TIMEOUT
  | INDIGO_FLOW_REMOVED_HARD_TIMEOUT
  | INDIGO_FLOW_REMOVED_DELETE
  | INDIGO_FLOW_REMOVED_OVERWRITE

text \<open>
  Error types and codes are named as the macros that pick their number for the version
  of the message; \<open>OF_ERROR_TYPE_0\<close> and \<open>OF_ERROR_CODE_0\<close> are the literal zeros some
  handlers pass.
\<close>

datatype of_error_type =
    OF_ERROR_TYPE_BAD_REQUEST
  | OF_ERROR_TYPE_FLOW_MOD_FAILED
  | OF_ERROR_TYPE_PORT_MOD_FAILED
  | OF_ERROR_TYPE_0

datatype of_error_code =
    OF_REQUEST_FAILED_BAD_TYPE
  | OF_FLOW_MOD_FAILED_OVERLAP
  | OF_FLOW_MOD_FAILED_BAD_EMERG_TIMEOUT
  | OF_FLOW_MOD_FAILED_ALL_TABLES_FULL
  | OF_FLOW_MOD_FAILED_UNSUPPORTED
  | OF_FLOW_MOD_FAILED_EPERM
  | OF_PORT_MOD_FAILED_BAD_PORT
  | OF_ERROR_CODE_0

type_synonym indigo_cxn_id = int

text \<open>
  The effects of a flow: the action list (1.0) or the instruction list (later versions),
  kept as its encoded bytes, and the wire version of that list object
  (\<^verbatim>\<open>entry->effects.actions->version\<close>).
\<close>

record of_effects =
  eff_version :: of_version
  eff_body :: "8 word list"

text \<open>
  A flow-mod wire object (\<^verbatim>\<open>of_flow_modify_t\<close>; add, modify and delete are coerced to it).
  The match structure is LOCI's and stays a type parameter \<open>'m\<close>; \<open>fm_match\<close> is \<open>None\<close>
  when \<^verbatim>\<open>of_flow_modify_match_get\<close> fails.
\<close>

record 'm of_flow_modify =
  fm_version :: of_version
  fm_xid :: "32 word"
  fm_flags :: "16 word"
  fm_idle_timeout :: "16 word"
  fm_hard_timeout :: "16 word"
  fm_table_id :: "8 word"
  fm_match :: "'m option"
  fm_priority :: "16 word"
  fm_out_port :: "32 word"
  fm_cookie :: "64 word"
  fm_cookie_mask :: "64 word"
  fm_effects :: "8 word list"

record 'm of_meta_match =
  q_table_id :: "8 word"
  q_match :: 'm
  q_mode :: match_mode
  q_check_priority :: bool
  q_priority :: "16 word"
  q_out_port :: "32 word"
  q_cookie :: "64 word"
  q_cookie_mask :: "64 word"

record 'm ft_entry =
  e_id :: "32 word"
  e_table_id :: "8 word"
  e_priority :: "16 word"
  e_match :: 'm
  e_cookie :: "64 word"
  e_idle_timeout :: "16 word"
  e_hard_timeout :: "16 word"
  e_flags :: "16 word"
  e_effects :: of_effects
  e_insert_time :: nat

record indigo_fi_flow_stats =
  fs_packets :: "64 word"
  fs_bytes :: "64 word"

record 'm of_flow_stats_entry =
  se_cookie :: "64 word"
  se_priority :: "16 word"
  se_idle_timeout :: "16 word"
  se_hard_timeout :: "16 word"
  se_flags :: "16 word"
  se_match :: "'m option"
  se_effects :: "of_effects option"
  se_table_id :: "8 word"
  se_duration_sec :: "32 word"
  se_duration_nsec :: "32 word"
  se_packet_count :: "64 word"
  se_byte_count :: "64 word"

record 'm of_flow_stats_reply =
  r_version :: of_version
  r_xid :: "32 word"
  r_flags :: "16 word"
  r_entries :: "'m of_flow_stats_entry list"
  r_length :: nat

record 'm of_flow_stats_request =
  fsr_version :: of_version
  fsr_xid :: "32 word"
  fsr_match :: "'m option"
  fsr_out_port :: "32 word"
  fsr_table_id :: "8 word"
  fsr_cookie :: "64 word"
  fsr_cookie_mask :: "64 word"

record of_port_stats_request =
  psq_version :: of_version
  psq_xid :: "32 word"
  psq_port_no :: "32 word"

record of_port_stats_reply =
  psr_version :: of_version
  psr_xid :: "32 word"
  psr_body :: "8 word list"

text \<open>What the handlers hand to the connection layer, in order.\<close>

datatype 'm wire_msg =
    OF_ERROR_MSG of_version indigo_cxn_id "32 word" of_error_type of_error_code
  | OF_FLOW_STATS_REPLY indigo_cxn_id "'m of_flow_stats_reply"
  | OF_AGGREGATE_STATS_REPLY indigo_cxn_id of_version "32 word" "64 word" "64 word" "32 word"
  | OF_PORT_STATS_REPLY indigo_cxn_id of_port_stats_reply
  | OF_FLOW_REMOVED "32 word" flow_removed_reason indigo_fi_flow_stats

text \<open>The calls into the forwarding module, in order, each with the flow id it is given.\<close>

datatype fwd_call =
    FWD_FLOW_CREATE "32 word"
  | FWD_FLOW_MODIFY "32 word"
  | FWD_FLOW_DELETE "32 word"
  | FWD_FLOW_STATS_GET "32 word"

text \<open>
  The process-wide state the handlers change: the flow table with its status counters
  (their C types are not among the sources; they are unbounded integers here), the
  static counter of \<^verbatim>\<open>flow_id_next\<close>, the messages handed to the connection layer, the
  calls made into forwarding, and how often the inbound request object has been
  deleted (\<^verbatim>\<open>of_object_delete\<close> and its typed variants).
\<close>

record 'm switch_state =
  ind_core_ft :: "'m ft_entry list"
  st_current_count :: int
  st_adds :: int
  st_deletes :: int
  st_forwarding_add_errors :: int
  next_flow_id :: "32 word"
  sent :: "'m wire_msg list"
  fwd_calls :: "fwd_call list"
  released :: nat

text \<open>
  What is outside \<^verbatim>\<open>handlers.c\<close> and only consulted by it: the per-version flag masks and
  sentinels (macros of LOCI and of the flow table's header), the match predicate of the
  flow table, whether an allocation succeeds, and the answers of the forwarding, port
  and connection modules and of the codec. A handler's theorem holds for every \<open>env\<close>.
\<close>

record 'm env =
  OF_FLOW_MOD_FLAG_CHECK_OVERLAP_BY_VERSION :: "of_version \<Rightarrow> 16 word"
  OF_FLOW_MOD_FLAG_EMERG_BY_VERSION :: "of_version \<Rightarrow> 16 word"
  OF_FLOW_MOD_FLAG_SEND_FLOW_REM_BY_VERSION :: "of_version \<Rightarrow> 16 word"
  TABLE_ID_ANY :: "8 word"
  OF_PORT_DEST_WILDCARD :: "32 word"
  ft_entry_meta_match :: "'m of_meta_match \<Rightarrow> 'm ft_entry \<Rightarrow> bool"
  INDIGO_MEM_ALLOC_ok :: bool
  ft_add_alloc_ok :: bool
  of_object_new_ok :: bool
  ft_spawn_iter_task_rv :: indigo_error
  IND_CORE_MSG_SEND_rv :: indigo_error
  INDIGO_CURRENT_TIME :: nat
  calc_duration :: "nat \<Rightarrow> nat \<Rightarrow> 32 word \<times> 32 word"
  indigo_fwd_flow_create :: "32 word \<Rightarrow> 'm of_flow_modify \<Rightarrow> indigo_error \<times> 8 word"
  indigo_fwd_flow_modify :: "32 word \<Rightarrow> 'm of_flow_modify \<Rightarrow> indigo_error"
  indigo_fwd_flow_delete :: "32 word \<Rightarrow> indigo_error \<times> indigo_fi_flow_stats"
  indigo_fwd_flow_stats_get :: "32 word \<Rightarrow> indigo_error \<times> indigo_fi_flow_stats"
  indigo_port_stats_get :: "of_port_stats_request \<Rightarrow> indigo_error \<times> of_port_stats_reply"
  of_flow_stats_reply_len :: "of_version \<Rightarrow> nat"
  of_flow_stats_entry_len :: "of_version \<Rightarrow> nat"
  of_list_append_bind_ok :: "nat \<Rightarrow> nat \<Rightarrow> bool"
  of_match_set_len :: "of_version \<Rightarrow> 'm \<Rightarrow> nat option"
  of_effects_set_len :: "of_effects \<Rightarrow> nat option"

section \<open>Allocators\<close>

text \<open>
  \<^verbatim>\<open>ind_core_xid_alloc\<close> and \<^verbatim>\<open>flow_id_next\<close> keep their counter in a function-local
  \<^verbatim>\<open>static\<close>; the model passes the counter in and returns the pair (value returned,
  counter afterwards).

  \<^verbatim>\<open>ind_core_xid_alloc\<close> is \<^verbatim>\<open>static uint32_t xid = 1000; return xid++;\<close> with return
  type \<^verbatim>\<open>int\<close>: the old counter value is returned, read as a signed 32-bit integer.
\<close>

definition ind_core_xid_alloc :: "32 word \<Rightarrow> int \<times> 32 word" where
  "ind_core_xid_alloc xid = (sint xid, xid + 1)"

definition xid_initial :: "32 word" where
  "xid_initial = 1000"

text \<open>
  \<^verbatim>\<open>flow_id_next\<close>: \<^verbatim>\<open>result = next_flow_id; if (++next_flow_id == 0) next_flow_id = 1;
  return result;\<close>. The typedef of \<^verbatim>\<open>indigo_flow_id_t\<close> is not among the sources, so the
  width is left open here; the switch state uses it at 32 bits, the width the
  specification gives.
\<close>

definition flow_id_next :: "'w::len word \<Rightarrow> 'w word \<times> 'w word" where
  "flow_id_next counter =
     (let result = counter;
          incremented = counter + 1
      in (result, if incremented = 0 then 1 else incremented))"

definition flow_id_initial :: "32 word" where
  "flow_id_initial = 1"

text \<open>The counter before the \<open>n\<close>-th call (counting from 0), and the value that call returns.\<close>

definition xid_counter :: "nat \<Rightarrow> 32 word" where
  "xid_counter n = ((\<lambda>c. snd (ind_core_xid_alloc c)) ^^ n) xid_initial"

definition xid_returned :: "nat \<Rightarrow> int" where
  "xid_returned n = fst (ind_core_xid_alloc (xid_counter n))"

definition flow_id_counter :: "nat \<Rightarrow> 32 word" where
  "flow_id_counter n = ((\<lambda>c. snd (flow_id_next c)) ^^ n) flow_id_initial"

definition flow_id_returned :: "nat \<Rightarrow> 32 word" where
  "flow_id_returned n = fst (flow_id_next (flow_id_counter n))"

section \<open>Wire objects and the connection layer\<close>

text \<open>\<^verbatim>\<open>of_object_delete\<close> (and \<^verbatim>\<open>of_<type>_delete\<close>) on the inbound request.\<close>

definition of_object_delete :: "'m switch_state \<Rightarrow> 'm switch_state" where
  "of_object_delete s = s\<lparr>released := released s + 1\<rparr>"

text \<open>
  \<^verbatim>\<open>ind_core_send_error_msg(ver, cxn_id, xid, type, code, obj, NULL)\<close> and
  \<^verbatim>\<open>indigo_cxn_send_error_msg(ver, cxn_id, xid, type, code, NULL)\<close>: the error is handed
  to the connection layer. The handlers only log a failed send, so the call is what is
  recorded.
\<close>

definition ind_core_send_error_msg ::
  "of_version \<Rightarrow> indigo_cxn_id \<Rightarrow> 32 word \<Rightarrow> of_error_type \<Rightarrow> of_error_code \<Rightarrow>
   'm switch_state \<Rightarrow> 'm switch_state" where
  "ind_core_send_error_msg ver cxn_id xid etype code s =
     s\<lparr>sent := sent s @ [OF_ERROR_MSG ver cxn_id xid etype code]\<rparr>"

definition indigo_cxn_send_error_msg ::
  "of_version \<Rightarrow> indigo_cxn_id \<Rightarrow> 32 word \<Rightarrow> of_error_type \<Rightarrow> of_error_code \<Rightarrow>
   'm switch_state \<Rightarrow> 'm switch_state" where
  "indigo_cxn_send_error_msg ver cxn_id xid etype code s =
     s\<lparr>sent := sent s @ [OF_ERROR_MSG ver cxn_id xid etype code]\<rparr>"

text \<open>\<^verbatim>\<open>IND_CORE_MSG_SEND(cxn_id, reply)\<close>: the reply is handed to the connection layer.\<close>

definition IND_CORE_MSG_SEND :: "'m wire_msg \<Rightarrow> 'm switch_state \<Rightarrow> 'm switch_state" where
  "IND_CORE_MSG_SEND msg s = s\<lparr>sent := sent s @ [msg]\<rparr>"

section \<open>Flow table primitives\<close>

text \<open>
  Modelled from the spec: \<^verbatim>\<open>ft_strict_match\<close> (\<^verbatim>\<open>ft.c\<close> is not among the sources).
  Specification 4.2: "linear scan returning the first strict match", or NOT_FOUND
  (\<open>None\<close>). Whether an entry matches a query is \<^verbatim>\<open>ft_entry_meta_match\<close>, a field of \<open>env\<close>.
\<close>

definition ft_strict_match ::
  "'m env \<Rightarrow> 'm ft_entry list \<Rightarrow> 'm of_meta_match \<Rightarrow> 'm ft_entry option" where
  "ft_strict_match env ft query = find (ft_entry_meta_match env query) ft"

text \<open>
  Modelled from the spec: \<^verbatim>\<open>ft_add\<close>. Specification 4.2: "allocates an entry populated
  from msg; links into the collection; updates current_count and adds. Fails with
  RESOURCE if allocation fails." The entry is linked at the tail.
\<close>

definition ft_add ::
  "'m env \<Rightarrow> 32 word \<Rightarrow> 'm of_flow_modify \<Rightarrow> 'm switch_state \<Rightarrow>
   indigo_error + ('m ft_entry \<times> 'm switch_state)" where
  "ft_add env flow_id obj s =
     (if \<not> ft_add_alloc_ok env then Inl INDIGO_ERROR_RESOURCE
      else case fm_match obj of
        None \<Rightarrow> Inl INDIGO_ERROR_UNKNOWN
      | Some m \<Rightarrow>
          let entry = \<lparr>e_id = flow_id, e_table_id = 0, e_priority = fm_priority obj,
                       e_match = m, e_cookie = fm_cookie obj,
                       e_idle_timeout = fm_idle_timeout obj,
                       e_hard_timeout = fm_hard_timeout obj, e_flags = fm_flags obj,
                       e_effects = \<lparr>eff_version = fm_version obj, eff_body = fm_effects obj\<rparr>,
                       e_insert_time = INDIGO_CURRENT_TIME env\<rparr>
          in Inr (entry, s\<lparr>ind_core_ft := ind_core_ft s @ [entry],
                            st_current_count := st_current_count s + 1,
                            st_adds := st_adds s + 1\<rparr>))"

text \<open>
  Modelled from the spec: \<^verbatim>\<open>ft_delete\<close>. Specification 4.2: "unlinks and releases;
  updates current_count and deletes. Fails with NOT_FOUND if the entry is not linked."
  The C entry is a pointer; here an entry is found by its flow id (at most one entry
  per flow id is the table's invariant). The handlers ignore the status returned.
\<close>

definition ft_delete :: "'m ft_entry \<Rightarrow> 'm switch_state \<Rightarrow> 'm switch_state" where
  "ft_delete entry s =
     (if list_ex (\<lambda>e. e_id e = e_id entry) (ind_core_ft s)
      then s\<lparr>ind_core_ft := filter (\<lambda>e. e_id e \<noteq> e_id entry) (ind_core_ft s),
              st_current_count := st_current_count s - 1,
              st_deletes := st_deletes s + 1\<rparr>
      else s)"

text \<open>
  Modelled from the spec: \<^verbatim>\<open>ft_entry_modify_effects\<close>. Specification 4.2: "replaces entry
  effects without touching identity, timers, or counters".
\<close>

definition ft_entry_modify_effects ::
  "'m ft_entry \<Rightarrow> 'm of_flow_modify \<Rightarrow> 'm switch_state \<Rightarrow> 'm switch_state" where
  "ft_entry_modify_effects entry obj s =
     s\<lparr>ind_core_ft :=
         map (\<lambda>e. if e_id e = e_id entry
                   then e\<lparr>e_effects := \<lparr>eff_version = fm_version obj, eff_body = fm_effects obj\<rparr>\<rparr>
                   else e)
           (ind_core_ft s)\<rparr>"

text \<open>
  Modelled from the spec: \<^verbatim>\<open>ind_core_flow_entry_delete\<close> (\<^verbatim>\<open>ofstatemanager.c\<close> is not
  among the sources). Specification 4.1.7: call \<^verbatim>\<open>FWD.flow_delete(entry.id)\<close>; send a
  \<^verbatim>\<open>flow_removed\<close> message if the entry asked for one (none for an overwrite); remove
  the entry from the flow table.
\<close>

definition ind_core_flow_entry_delete ::
  "'m env \<Rightarrow> 'm ft_entry \<Rightarrow> flow_removed_reason \<Rightarrow> indigo_cxn_id \<Rightarrow>
   'm switch_state \<Rightarrow> 'm switch_state" where
  "ind_core_flow_entry_delete env entry reason cxn_id s =
     (let final_stats = snd (indigo_fwd_flow_delete env (e_id entry));
          s1 = s\<lparr>fwd_calls := fwd_calls s @ [FWD_FLOW_DELETE (e_id entry)]\<rparr>;
          s2 = (if (e_flags entry AND
                      OF_FLOW_MOD_FLAG_SEND_FLOW_REM_BY_VERSION env (eff_version (e_effects entry))) \<noteq> 0
                   \<and> reason \<noteq> INDIGO_FLOW_REMOVED_OVERWRITE
                then IND_CORE_MSG_SEND (OF_FLOW_REMOVED (e_id entry) reason final_stats) s1
                else s1)
      in ft_delete entry s2)"

text \<open>
  Modelled from the spec: the task \<^verbatim>\<open>ft_spawn_iter_task\<close> registers. Specification 4.3:
  "the callback is invoked once per matching entry with (cookie, entry), then exactly
  once with (cookie, null) as a terminal sentinel". The cookie is the handler's state
  struct, which the callback updates. The task is run here to its end in one piece:
  the slices of the cooperative scheduler, and other handlers running between them,
  are not modelled, and the other modules answer every callback of the run as \<open>env\<close>
  says.
\<close>

definition ft_iter_task ::
  "'m env \<Rightarrow> 'm of_meta_match \<Rightarrow>
   ('c \<Rightarrow> 'm ft_entry option \<Rightarrow> 'm switch_state \<Rightarrow> 'c \<times> 'm switch_state) \<Rightarrow>
   'c \<Rightarrow> 'm switch_state \<Rightarrow> 'c \<times> 'm switch_state" where
  "ft_iter_task env query cb cookie s =
     (let matched = filter (ft_entry_meta_match env query) (ind_core_ft s);
          after_entries = fold (\<lambda>entry cs. cb (fst cs) (Some entry) (snd cs)) matched (cookie, s)
      in cb (fst after_entries) None (snd after_entries))"

section \<open>Flow-mod handlers\<close>

text \<open>
  \<^verbatim>\<open>flow_mod_setup_query\<close>. The query is zeroed, then filled. \<^verbatim>\<open>_TRY\<close> returns the
  negative status of \<^verbatim>\<open>of_flow_modify_match_get\<close> when the match does not decode; the
  handlers only test that status for being an error, and it is \<open>INDIGO_ERROR_UNKNOWN\<close>
  here.
\<close>

definition flow_mod_setup_query ::
  "'m env \<Rightarrow> 'm of_flow_modify \<Rightarrow> match_mode \<Rightarrow> bool \<Rightarrow> indigo_error + 'm of_meta_match" where
  "flow_mod_setup_query env obj query_mode force_wildcard_port =
     (case fm_match obj of
        None \<Rightarrow> Inl INDIGO_ERROR_UNKNOWN
      | Some m \<Rightarrow>
          let with_priority = (query_mode = OF_MATCH_STRICT \<or> query_mode = OF_MATCH_OVERLAP);
              with_cookie = (query_mode \<noteq> OF_MATCH_OVERLAP \<and> wire_number (fm_version obj) \<ge> 2)
          in Inr \<lparr>q_table_id = (if wire_number (fm_version obj) > 1 then fm_table_id obj
                                  else TABLE_ID_ANY env),
                  q_match = m,
                  q_mode = query_mode,
                  q_check_priority = with_priority,
                  q_priority = (if with_priority then fm_priority obj else 0),
                  q_out_port = (if force_wildcard_port then OF_PORT_DEST_WILDCARD env
                                else fm_out_port obj),
                  q_cookie = (if with_cookie then fm_cookie obj else 0),
                  q_cookie_mask = (if with_cookie then fm_cookie_mask obj else 0)\<rparr>)"

text \<open>
  \<^verbatim>\<open>overlap_found\<close>: "Return 1 if overlap found, 0 if not found, <0 on error". The error
  is the status \<^verbatim>\<open>_TRY\<close> returns, \<open>- 1\<close> here. \<^verbatim>\<open>FT_ITER\<close> walks every entry of the table.
\<close>

definition overlap_found :: "'m env \<Rightarrow> 'm of_flow_modify \<Rightarrow> 'm switch_state \<Rightarrow> int" where
  "overlap_found env obj s =
     (case flow_mod_setup_query env obj OF_MATCH_OVERLAP True of
        Inl err \<Rightarrow> - 1
      | Inr query \<Rightarrow>
          if list_ex (ft_entry_meta_match env query) (ind_core_ft s) then 1 else 0)"

text \<open>
  \<^verbatim>\<open>flow_mod_err_msg_send\<close>: the switch on the error picks the code, and the error
  message is sent unless the status is \<open>INDIGO_ERROR_NONE\<close>.
\<close>

definition flow_mod_err_msg_send ::
  "indigo_error \<Rightarrow> of_version \<Rightarrow> indigo_cxn_id \<Rightarrow> 'm of_flow_modify \<Rightarrow>
   'm switch_state \<Rightarrow> 'm switch_state" where
  "flow_mod_err_msg_send indigo_err ver cxn_id flow_mod s =
     (let xid = fm_xid flow_mod
      in case indigo_err of
           INDIGO_ERROR_NONE \<Rightarrow> s
         | INDIGO_ERROR_RESOURCE \<Rightarrow>
             ind_core_send_error_msg ver cxn_id xid OF_ERROR_TYPE_FLOW_MOD_FAILED
               OF_FLOW_MOD_FAILED_ALL_TABLES_FULL s
         | INDIGO_ERROR_NOT_SUPPORTED \<Rightarrow>
             ind_core_send_error_msg ver cxn_id xid OF_ERROR_TYPE_FLOW_MOD_FAILED
               OF_FLOW_MOD_FAILED_UNSUPPORTED s
         | _ \<Rightarrow>
             ind_core_send_error_msg ver cxn_id xid OF_ERROR_TYPE_FLOW_MOD_FAILED
               OF_FLOW_MOD_FAILED_EPERM s)"

text \<open>
  The static counter of \<^verbatim>\<open>flow_id_next\<close> is a field of the state.
\<close>

definition flow_id_alloc :: "'m switch_state \<Rightarrow> 32 word \<times> 'm switch_state" where
  "flow_id_alloc s =
     (fst (flow_id_next (next_flow_id s)), s\<lparr>next_flow_id := snd (flow_id_next (next_flow_id s))\<rparr>)"

text \<open>
  \<^verbatim>\<open>entry->table_id = table_id\<close> after a successful \<^verbatim>\<open>indigo_fwd_flow_create\<close>: \<^verbatim>\<open>entry\<close>
  is the pointer \<^verbatim>\<open>ft_add\<close> has just returned, the entry it linked at the tail of the
  table. Only that entry is written, whatever the flow ids of the others.
\<close>

definition entry_table_id_set :: "8 word \<Rightarrow> 'm switch_state \<Rightarrow> 'm switch_state" where
  "entry_table_id_set table_id s =
     (case rev (ind_core_ft s) of
        [] \<Rightarrow> s
      | entry # before \<Rightarrow>
          s\<lparr>ind_core_ft := rev before @ [entry\<lparr>e_table_id := table_id\<rparr>]\<rparr>)"

text \<open>
  \<^verbatim>\<open>ind_core_flow_add_handler\<close>, up to the label \<^verbatim>\<open>done\<close>: the value of \<^verbatim>\<open>rv\<close> there, and
  the state.
\<close>

definition flow_add_until_done ::
  "'m env \<Rightarrow> 'm of_flow_modify \<Rightarrow> indigo_cxn_id \<Rightarrow> 'm switch_state \<Rightarrow>
   indigo_error \<times> 'm switch_state" where
  "flow_add_until_done env obj cxn_id s =
     (let ver = fm_version obj;
          flags = fm_flags obj;
          xid = fm_xid obj;
          idle_timeout = fm_idle_timeout obj;
          hard_timeout = fm_hard_timeout obj
      in
      if (flags AND OF_FLOW_MOD_FLAG_CHECK_OVERLAP_BY_VERSION env ver) \<noteq> 0
         \<and> overlap_found env obj s \<noteq> 0
      then (INDIGO_ERROR_NONE,
            ind_core_send_error_msg ver cxn_id xid OF_ERROR_TYPE_FLOW_MOD_FAILED
              OF_FLOW_MOD_FAILED_OVERLAP s)
      else if (flags AND OF_FLOW_MOD_FLAG_EMERG_BY_VERSION env ver) \<noteq> 0
              \<and> \<not> (idle_timeout = 0 \<and> hard_timeout = 0)
      then (INDIGO_ERROR_PARAM,
            ind_core_send_error_msg ver cxn_id xid OF_ERROR_TYPE_FLOW_MOD_FAILED
              OF_FLOW_MOD_FAILED_BAD_EMERG_TIMEOUT s)
      else
        case flow_mod_setup_query env obj OF_MATCH_STRICT True of
          Inl rv \<Rightarrow> (rv, s)
        | Inr query \<Rightarrow>
            let s1 = (case ft_strict_match env (ind_core_ft s) query of
                        Some entry \<Rightarrow>
                          ind_core_flow_entry_delete env entry INDIGO_FLOW_REMOVED_OVERWRITE cxn_id s
                      | None \<Rightarrow> s);
                flow_id = fst (flow_id_alloc s1);
                s2 = snd (flow_id_alloc s1)
            in
            (case ft_add env flow_id obj s2 of
              Inl rv \<Rightarrow> (rv, s2)
            | Inr added \<Rightarrow>
                let entry = fst added;
                    s3 = (snd added)\<lparr>fwd_calls := fwd_calls (snd added) @ [FWD_FLOW_CREATE flow_id]\<rparr>;
                    rv = fst (indigo_fwd_flow_create env flow_id obj);
                    table_id = snd (indigo_fwd_flow_create env flow_id obj)
                in
                if rv = INDIGO_ERROR_NONE
                then (rv, entry_table_id_set table_id s3)
                else
                  (rv,
                   ft_delete entry
                     (flow_mod_err_msg_send rv ver cxn_id obj
                        (s3\<lparr>st_forwarding_add_errors := st_forwarding_add_errors s3 + 1\<rparr>)))))"

text \<open>
  \<^verbatim>\<open>done: of_object_delete(_obj); return INDIGO_ERROR_NONE;\<close> The value of \<^verbatim>\<open>rv\<close> is not
  returned.
\<close>

definition ind_core_flow_add_handler ::
  "'m env \<Rightarrow> 'm of_flow_modify \<Rightarrow> indigo_cxn_id \<Rightarrow> 'm switch_state \<Rightarrow>
   indigo_error \<times> 'm switch_state" where
  "ind_core_flow_add_handler env obj cxn_id s =
     (INDIGO_ERROR_NONE, of_object_delete (snd (flow_add_until_done env obj cxn_id s)))"

text \<open>The state struct of the non-strict modify and delete tasks.\<close>

record 'm flow_modify_state =
  fms_request :: "'m of_flow_modify"
  fms_cxn_id :: indigo_cxn_id
  fms_num_matched :: int

text \<open>
  \<^verbatim>\<open>modify_iter_cb\<close>. With an entry: count it, ask forwarding to modify the flow, and
  replace the entry's effects or send the error. Without (\<^verbatim>\<open>entry == NULL\<close>, the end of
  the task): treat as an add when nothing matched, else delete the request.
\<close>

definition modify_iter_cb ::
  "'m env \<Rightarrow> 'm flow_modify_state \<Rightarrow> 'm ft_entry option \<Rightarrow> 'm switch_state \<Rightarrow>
   'm flow_modify_state \<times> 'm switch_state" where
  "modify_iter_cb env state entry s =
     (case entry of
        Some e \<Rightarrow>
          let state' = state\<lparr>fms_num_matched := fms_num_matched state + 1\<rparr>;
              rv = indigo_fwd_flow_modify env (e_id e) (fms_request state);
              s1 = s\<lparr>fwd_calls := fwd_calls s @ [FWD_FLOW_MODIFY (e_id e)]\<rparr>
          in if rv = INDIGO_ERROR_NONE
             then (state', ft_entry_modify_effects e (fms_request state) s1)
             else (state', flow_mod_err_msg_send rv (fm_version (fms_request state))
                             (fms_cxn_id state) (fms_request state) s1)
      | None \<Rightarrow>
          if fms_num_matched state = 0
          then (state, snd (ind_core_flow_add_handler env (fms_request state) (fms_cxn_id state) s))
          else (state, of_object_delete s))"

text \<open>
  \<^verbatim>\<open>ind_core_flow_modify_handler\<close>. When \<^verbatim>\<open>INDIGO_MEM_ALLOC\<close> returns \<^verbatim>\<open>NULL\<close> the handler
  is left by \<^verbatim>\<open>return INDIGO_ERROR_RESOURCE;\<close> at once.
\<close>

definition ind_core_flow_modify_handler ::
  "'m env \<Rightarrow> 'm of_flow_modify \<Rightarrow> indigo_cxn_id \<Rightarrow> 'm switch_state \<Rightarrow>
   indigo_error \<times> 'm switch_state" where
  "ind_core_flow_modify_handler env obj cxn_id s =
     (if \<not> INDIGO_MEM_ALLOC_ok env then (INDIGO_ERROR_RESOURCE, s)
      else
        let state = \<lparr>fms_request = obj, fms_cxn_id = cxn_id, fms_num_matched = 0\<rparr>
        in case flow_mod_setup_query env obj OF_MATCH_NON_STRICT True of
             Inl rv \<Rightarrow> (rv, of_object_delete s)
           | Inr query \<Rightarrow>
               if ft_spawn_iter_task_rv env \<noteq> INDIGO_ERROR_NONE
               then (ft_spawn_iter_task_rv env, of_object_delete s)
               else (INDIGO_ERROR_NONE,
                     snd (ft_iter_task env query (modify_iter_cb env) state s)))"

text \<open>
  \<^verbatim>\<open>ind_core_flow_modify_strict_handler\<close>. \<^verbatim>\<open>ft_strict_match\<close> answering NOT_FOUND is
  \<open>None\<close>.
\<close>

definition ind_core_flow_modify_strict_handler ::
  "'m env \<Rightarrow> 'm of_flow_modify \<Rightarrow> indigo_cxn_id \<Rightarrow> 'm switch_state \<Rightarrow>
   indigo_error \<times> 'm switch_state" where
  "ind_core_flow_modify_strict_handler env obj cxn_id s =
     (case flow_mod_setup_query env obj OF_MATCH_STRICT True of
        Inl rv \<Rightarrow> (rv, of_object_delete s)
      | Inr query \<Rightarrow>
          (case ft_strict_match env (ind_core_ft s) query of
             None \<Rightarrow> ind_core_flow_add_handler env obj cxn_id s
           | Some entry \<Rightarrow>
               let rv = indigo_fwd_flow_modify env (e_id entry) obj;
                   s1 = s\<lparr>fwd_calls := fwd_calls s @ [FWD_FLOW_MODIFY (e_id entry)]\<rparr>
               in if rv = INDIGO_ERROR_NONE
                  then (rv, of_object_delete (ft_entry_modify_effects entry obj s1))
                  else (rv, of_object_delete
                              (flow_mod_err_msg_send rv (fm_version obj) cxn_id obj s1))))"

text \<open>\<^verbatim>\<open>delete_iter_cb\<close> and \<^verbatim>\<open>ind_core_flow_delete_handler\<close>.\<close>

definition delete_iter_cb ::
  "'m env \<Rightarrow> 'm flow_modify_state \<Rightarrow> 'm ft_entry option \<Rightarrow> 'm switch_state \<Rightarrow>
   'm flow_modify_state \<times> 'm switch_state" where
  "delete_iter_cb env state entry s =
     (case entry of
        Some e \<Rightarrow>
          (state, ind_core_flow_entry_delete env e INDIGO_FLOW_REMOVED_DELETE (fms_cxn_id state) s)
      | None \<Rightarrow> (state, of_object_delete s))"

definition ind_core_flow_delete_handler ::
  "'m env \<Rightarrow> 'm of_flow_modify \<Rightarrow> indigo_cxn_id \<Rightarrow> 'm switch_state \<Rightarrow>
   indigo_error \<times> 'm switch_state" where
  "ind_core_flow_delete_handler env obj cxn_id s =
     (if \<not> INDIGO_MEM_ALLOC_ok env then (INDIGO_ERROR_RESOURCE, of_object_delete s)
      else
        let state = \<lparr>fms_request = obj, fms_cxn_id = cxn_id, fms_num_matched = 0\<rparr>
        in case flow_mod_setup_query env obj OF_MATCH_NON_STRICT False of
             Inl rv \<Rightarrow> (rv, of_object_delete s)
           | Inr query \<Rightarrow>
               if ft_spawn_iter_task_rv env \<noteq> INDIGO_ERROR_NONE
               then (ft_spawn_iter_task_rv env, of_object_delete s)
               else (INDIGO_ERROR_NONE,
                     snd (ft_iter_task env query (delete_iter_cb env) state s)))"

section \<open>Statistics handlers\<close>

text \<open>
  The query both flow-statistics handlers build from the request, once its match has
  decoded: zeroed, then match, out-port and table id from the request, the cookie and
  its mask from version 1.1 on, and the non-strict mode.
\<close>

definition stats_request_query :: "'m of_flow_stats_request \<Rightarrow> 'm \<Rightarrow> 'm of_meta_match" where
  "stats_request_query obj m =
     \<lparr>q_table_id = fsr_table_id obj,
      q_match = m,
      q_mode = OF_MATCH_NON_STRICT,
      q_check_priority = False,
      q_priority = 0,
      q_out_port = fsr_out_port obj,
      q_cookie = (if wire_number (fsr_version obj) \<ge> 2 then fsr_cookie obj else 0),
      q_cookie_mask = (if wire_number (fsr_version obj) \<ge> 2 then fsr_cookie_mask obj else 0)\<rparr>"

record 'm ind_core_flow_stats_state =
  fss_cxn_id :: indigo_cxn_id
  fss_req :: "'m of_flow_stats_request"
  fss_current_time :: nat
  fss_reply :: "'m of_flow_stats_reply option"

text \<open>
  The head of \<^verbatim>\<open>ind_core_flow_stats_iter\<close>: "Allocate a reply if we don't already have
  one", with the xid of the request and the flags set to 1. \<open>None\<close> when the allocation
  fails.
\<close>

definition flow_stats_reply_get ::
  "'m env \<Rightarrow> 'm ind_core_flow_stats_state \<Rightarrow> 'm of_flow_stats_reply option" where
  "flow_stats_reply_get env state =
     (case fss_reply state of
        Some reply \<Rightarrow> Some reply
      | None \<Rightarrow>
          if of_object_new_ok env
          then Some \<lparr>r_version = fsr_version (fss_req state),
                     r_xid = fsr_xid (fss_req state),
                     r_flags = 1,
                     r_entries = [],
                     r_length = of_flow_stats_reply_len env (fsr_version (fss_req state))\<rparr>
          else None)"

text \<open>
  The block of \<^verbatim>\<open>ind_core_flow_stats_iter\<close> that appends one entry to the reply. The
  result is the reply afterwards and whether the block ran to its end: it is left early
  (\<^verbatim>\<open>return\<close>) when the append, the match setter or the effects setter fails, the entry
  then staying in the list as far as it was filled. The lengths are the codec's:
  \<open>of_flow_stats_entry_len\<close> of a fresh entry, and what the match and the effects add.
  The effects are set by \<^verbatim>\<open>of_flow_stats_entry_actions_set\<close> for version 1.0 and by
  \<^verbatim>\<open>of_flow_stats_entry_instructions_set\<close> for the later ones; \<open>of_effects_set_len\<close>
  stands for both.
\<close>

definition flow_stats_entry_append ::
  "'m env \<Rightarrow> nat \<Rightarrow> 'm of_flow_stats_reply \<Rightarrow> 'm ft_entry \<Rightarrow> indigo_fi_flow_stats \<Rightarrow>
   'm of_flow_stats_reply \<times> bool" where
  "flow_stats_entry_append env current_time reply entry flow_stats =
     (let ver = r_version reply;
          duration = calc_duration env current_time (e_insert_time entry);
          init_len = of_flow_stats_entry_len env ver
      in
      if \<not> of_list_append_bind_ok env (r_length reply) init_len then (reply, False)
      else
        let e1 = \<lparr>se_cookie = e_cookie entry,
                  se_priority = e_priority entry,
                  se_idle_timeout = e_idle_timeout entry,
                  se_hard_timeout = e_hard_timeout entry,
                  se_flags = (if wire_number ver \<ge> 4 then e_flags entry else 0),
                  se_match = None,
                  se_effects = None,
                  se_table_id = 0,
                  se_duration_sec = 0,
                  se_duration_nsec = 0,
                  se_packet_count = 0,
                  se_byte_count = 0\<rparr>
        in
        case of_match_set_len env ver (e_match entry) of
          None \<Rightarrow>
            (reply\<lparr>r_entries := r_entries reply @ [e1],
                   r_length := r_length reply + init_len\<rparr>, False)
        | Some match_len \<Rightarrow>
            let e2 = e1\<lparr>se_match := Some (e_match entry)\<rparr>;
                effects_set =
                  (if ver = eff_version (e_effects entry)
                   then (case of_effects_set_len env (e_effects entry) of
                           None \<Rightarrow> None
                         | Some effects_len \<Rightarrow> Some (Some (e_effects entry), effects_len))
                   else Some (None, 0))
            in
            (case effects_set of
              None \<Rightarrow>
                (reply\<lparr>r_entries := r_entries reply @ [e2],
                       r_length := r_length reply + init_len + match_len\<rparr>, False)
            | Some eff \<Rightarrow>
                (reply\<lparr>r_entries := r_entries reply @
                          [e2\<lparr>se_effects := fst eff,
                              se_table_id := e_table_id entry,
                              se_duration_sec := fst duration,
                              se_duration_nsec := snd duration,
                              se_packet_count := fs_packets flow_stats,
                              se_byte_count := fs_bytes flow_stats\<rparr>],
                       r_length := r_length reply + init_len + match_len + snd eff\<rparr>, True)))"

text \<open>
  \<^verbatim>\<open>ind_core_flow_stats_iter\<close>. After the append block:
  \<^verbatim>\<open>if (state->reply->length > (1 << 15)) { IND_CORE_MSG_SEND(...); state->reply = NULL; }\<close>
\<close>

definition ind_core_flow_stats_iter ::
  "'m env \<Rightarrow> 'm ind_core_flow_stats_state \<Rightarrow> 'm ft_entry option \<Rightarrow> 'm switch_state \<Rightarrow>
   'm ind_core_flow_stats_state \<times> 'm switch_state" where
  "ind_core_flow_stats_iter env state entry s =
     (case flow_stats_reply_get env state of
        None \<Rightarrow>
          (case entry of
             None \<Rightarrow> (state, of_object_delete s)
           | Some e \<Rightarrow> (state, s))
      | Some reply \<Rightarrow>
          (case entry of
             None \<Rightarrow>
               (state\<lparr>fss_reply := Some (reply\<lparr>r_flags := 0\<rparr>)\<rparr>,
                of_object_delete
                  (IND_CORE_MSG_SEND
                     (OF_FLOW_STATS_REPLY (fss_cxn_id state) (reply\<lparr>r_flags := 0\<rparr>)) s))
           | Some e \<Rightarrow>
               let state1 = state\<lparr>fss_reply := Some reply\<rparr>;
                   rv = fst (indigo_fwd_flow_stats_get env (e_id e));
                   flow_stats = snd (indigo_fwd_flow_stats_get env (e_id e));
                   s1 = s\<lparr>fwd_calls := fwd_calls s @ [FWD_FLOW_STATS_GET (e_id e)]\<rparr>
               in
               if rv \<noteq> INDIGO_ERROR_NONE then (state1, s1)
               else if fsr_version (fss_req state) \<noteq> eff_version (e_effects e) then (state1, s1)
               else
                 let appended = flow_stats_entry_append env (fss_current_time state) reply e flow_stats;
                     reply' = fst appended
                 in
                 if \<not> snd appended then (state\<lparr>fss_reply := Some reply'\<rparr>, s1)
                 else if r_length reply' > 2 ^ 15
                 then (state\<lparr>fss_reply := None\<rparr>,
                       IND_CORE_MSG_SEND (OF_FLOW_STATS_REPLY (fss_cxn_id state) reply') s1)
                 else (state\<lparr>fss_reply := Some reply'\<rparr>, s1)))"

definition ind_core_flow_stats_request_handler ::
  "'m env \<Rightarrow> 'm of_flow_stats_request \<Rightarrow> indigo_cxn_id \<Rightarrow> 'm switch_state \<Rightarrow>
   indigo_error \<times> 'm switch_state" where
  "ind_core_flow_stats_request_handler env obj cxn_id s =
     (case fsr_match obj of
        None \<Rightarrow> (INDIGO_ERROR_UNKNOWN, of_object_delete s)
      | Some m \<Rightarrow>
          let query = stats_request_query obj m
          in
          if \<not> INDIGO_MEM_ALLOC_ok env then (INDIGO_ERROR_RESOURCE, of_object_delete s)
          else
            let state = \<lparr>fss_cxn_id = cxn_id, fss_req = obj,
                         fss_current_time = INDIGO_CURRENT_TIME env, fss_reply = None\<rparr>
            in
            if ft_spawn_iter_task_rv env \<noteq> INDIGO_ERROR_NONE
            then (ft_spawn_iter_task_rv env, of_object_delete s)
            else (INDIGO_ERROR_NONE,
                  snd (ft_iter_task env query (ind_core_flow_stats_iter env) state s)))"

text \<open>
  The aggregate-statistics request has the fields of the flow-statistics request; its
  handler and callback follow.
\<close>

record 'm ind_core_aggregate_stats_state =
  ags_packets :: "64 word"
  ags_bytes :: "64 word"
  ags_flows :: "32 word"
  ags_cxn_id :: indigo_cxn_id
  ags_req :: "'m of_flow_stats_request"

definition ind_core_aggregate_stats_iter ::
  "'m env \<Rightarrow> 'm ind_core_aggregate_stats_state \<Rightarrow> 'm ft_entry option \<Rightarrow> 'm switch_state \<Rightarrow>
   'm ind_core_aggregate_stats_state \<times> 'm switch_state" where
  "ind_core_aggregate_stats_iter env state entry s =
     (case entry of
        Some e \<Rightarrow>
          let rv = fst (indigo_fwd_flow_stats_get env (e_id e));
              flow_stats = snd (indigo_fwd_flow_stats_get env (e_id e));
              s1 = s\<lparr>fwd_calls := fwd_calls s @ [FWD_FLOW_STATS_GET (e_id e)]\<rparr>
          in if rv \<noteq> INDIGO_ERROR_NONE then (state, s1)
             else (state\<lparr>ags_bytes := ags_bytes state + fs_bytes flow_stats,
                         ags_packets := ags_packets state + fs_packets flow_stats,
                         ags_flows := ags_flows state + 1\<rparr>, s1)
      | None \<Rightarrow>
          let xid = fsr_xid (ags_req state);
              s1 = (if of_object_new_ok env
                    then IND_CORE_MSG_SEND
                           (OF_AGGREGATE_STATS_REPLY (ags_cxn_id state) (fsr_version (ags_req state))
                              xid (ags_bytes state) (ags_packets state) (ags_flows state)) s
                    else s)
          in (state, of_object_delete s1))"

definition ind_core_aggregate_stats_request_handler ::
  "'m env \<Rightarrow> 'm of_flow_stats_request \<Rightarrow> indigo_cxn_id \<Rightarrow> 'm switch_state \<Rightarrow>
   indigo_error \<times> 'm switch_state" where
  "ind_core_aggregate_stats_request_handler env obj cxn_id s =
     (case fsr_match obj of
        None \<Rightarrow> (INDIGO_ERROR_UNKNOWN, of_object_delete s)
      | Some m \<Rightarrow>
          let query = stats_request_query obj m
          in
          if \<not> INDIGO_MEM_ALLOC_ok env then (INDIGO_ERROR_RESOURCE, of_object_delete s)
          else
            let state = \<lparr>ags_packets = 0, ags_bytes = 0, ags_flows = 0,
                         ags_cxn_id = cxn_id, ags_req = obj\<rparr>
            in
            if ft_spawn_iter_task_rv env \<noteq> INDIGO_ERROR_NONE
            then (ft_spawn_iter_task_rv env, of_object_delete s)
            else (INDIGO_ERROR_NONE,
                  snd (ft_iter_task env query (ind_core_aggregate_stats_iter env) state s)))"

text \<open>
  \<^verbatim>\<open>ind_core_port_stats_request_handler\<close>. The local \<^verbatim>\<open>xid\<close> starts as 0 and is read from
  the request only in the branch where \<^verbatim>\<open>indigo_port_stats_get\<close> succeeded. The handler
  returns the status of the send, or of the port manager.
\<close>

definition ind_core_port_stats_request_handler ::
  "'m env \<Rightarrow> of_port_stats_request \<Rightarrow> indigo_cxn_id \<Rightarrow> 'm switch_state \<Rightarrow>
   indigo_error \<times> 'm switch_state" where
  "ind_core_port_stats_request_handler env obj cxn_id s =
     (let xid = 0;
          rv = fst (indigo_port_stats_get env obj);
          reply = snd (indigo_port_stats_get env obj)
      in
      if rv = INDIGO_ERROR_NONE
      then
        let xid = psq_xid obj;
            reply' = reply\<lparr>psr_xid := xid\<rparr>
        in (IND_CORE_MSG_SEND_rv env,
            of_object_delete (IND_CORE_MSG_SEND (OF_PORT_STATS_REPLY cxn_id reply') s))
      else
        (rv, of_object_delete
               (indigo_cxn_send_error_msg (psq_version obj) cxn_id xid
                  OF_ERROR_TYPE_0 OF_ERROR_CODE_0 s)))"

section \<open>Observations on a statistics iteration\<close>

text \<open>
  The number of flow-statistics entries the iteration has produced so far: those in the
  replies already handed to the connection layer, and those in the reply the state
  still holds.
\<close>

fun reply_entry_count :: "'m wire_msg \<Rightarrow> nat" where
  "reply_entry_count (OF_FLOW_STATS_REPLY cxn_id reply) = length (r_entries reply)"
| "reply_entry_count other = 0"

definition entries_produced :: "'m ind_core_flow_stats_state \<times> 'm switch_state \<Rightarrow> nat" where
  "entries_produced run =
     (case fss_reply (fst run) of None \<Rightarrow> 0 | Some reply \<Rightarrow> length (r_entries reply))
     + sum_list (map reply_entry_count (sent (snd run)))"

text \<open>
  When the callback for an entry gets as far as appending it: a reply is at hand (held, or
  newly allocated), forwarding gives the flow's counters, the entry's effects have the
  version of the request, and the list append succeeds.
\<close>

definition entry_appended ::
  "'m env \<Rightarrow> 'm ind_core_flow_stats_state \<Rightarrow> 'm ft_entry \<Rightarrow> bool" where
  "entry_appended env state e =
     (case flow_stats_reply_get env state of
        None \<Rightarrow> False
      | Some reply \<Rightarrow>
          fst (indigo_fwd_flow_stats_get env (e_id e)) = INDIGO_ERROR_NONE
          \<and> fsr_version (fss_req state) = eff_version (e_effects e)
          \<and> of_list_append_bind_ok env (r_length reply)
                (of_flow_stats_entry_len env (r_version reply)))"

text \<open>The callbacks of a task over a list of matched entries, before the terminal call.\<close>

definition flow_stats_entries_run ::
  "'m env \<Rightarrow> 'm ft_entry list \<Rightarrow> 'm ind_core_flow_stats_state \<times> 'm switch_state \<Rightarrow>
   'm ind_core_flow_stats_state \<times> 'm switch_state" where
  "flow_stats_entries_run env matched run =
     fold (\<lambda>entry cs. ind_core_flow_stats_iter env (fst cs) (Some entry) (snd cs)) matched run"




section \<open>Scenarios\<close>

text \<open>
  Concrete inputs on which the handlers are evaluated. A match is a value and a mask
  (a mask bit set: the bit is compared), the versions' flag masks are those of
  OpenFlow, and the modules answer with success unless a scenario says otherwise.
\<close>

type_synonym scenario_match = "32 word \<times> 32 word"

text \<open>
  Modelled from the spec: the match predicate of the scenarios (\<^verbatim>\<open>ft_entry_meta_match\<close>
  is in \<^verbatim>\<open>ft.c\<close>, not among the sources). Specification 3, match semantics: strict is
  equality of match, priority and masked cookie; non-strict is the query's match being
  a subset of the entry's, with the masked cookie; overlap is a common point of the two
  matches at equal priority. The out-port filter is left out: the scenarios use the
  wildcard. Only the scenarios use it; the general theorems hold for every predicate.
\<close>

definition scenario_meta_match ::
  "scenario_match of_meta_match \<Rightarrow> scenario_match ft_entry \<Rightarrow> bool" where
  "scenario_meta_match query entry =
     (let qv = fst (q_match query); qm = snd (q_match query);
          ev = fst (e_match entry); em = snd (e_match entry);
          cookie_ok = (((q_cookie query XOR e_cookie entry) AND q_cookie_mask query) = 0)
      in case q_mode query of
           OF_MATCH_STRICT \<Rightarrow>
             qm = em \<and> (qv AND qm) = (ev AND em) \<and> q_priority query = e_priority entry \<and> cookie_ok
         | OF_MATCH_NON_STRICT \<Rightarrow>
             (qm AND em) = qm \<and> ((qv XOR ev) AND qm) = 0 \<and> cookie_ok
         | OF_MATCH_OVERLAP \<Rightarrow>
             q_priority query = e_priority entry \<and> ((qv XOR ev) AND qm AND em) = 0)"

definition scenario_env :: "scenario_match env" where
  "scenario_env =
     \<lparr>OF_FLOW_MOD_FLAG_CHECK_OVERLAP_BY_VERSION = (\<lambda>ver. 2),
      OF_FLOW_MOD_FLAG_EMERG_BY_VERSION = (\<lambda>ver. if ver = OF_VERSION_1_0 then 4 else 0),
      OF_FLOW_MOD_FLAG_SEND_FLOW_REM_BY_VERSION = (\<lambda>ver. 1),
      TABLE_ID_ANY = 255,
      OF_PORT_DEST_WILDCARD = 4294967295,
      ft_entry_meta_match = scenario_meta_match,
      INDIGO_MEM_ALLOC_ok = True,
      ft_add_alloc_ok = True,
      of_object_new_ok = True,
      ft_spawn_iter_task_rv = INDIGO_ERROR_NONE,
      IND_CORE_MSG_SEND_rv = INDIGO_ERROR_NONE,
      INDIGO_CURRENT_TIME = 5000,
      calc_duration = (\<lambda>now inserted. (of_nat ((now - inserted) div 1000),
                                         of_nat (((now - inserted) mod 1000) * 1000000))),
      indigo_fwd_flow_create = (\<lambda>flow_id obj. (INDIGO_ERROR_NONE, 0)),
      indigo_fwd_flow_modify = (\<lambda>flow_id obj. INDIGO_ERROR_NONE),
      indigo_fwd_flow_delete = (\<lambda>flow_id. (INDIGO_ERROR_NONE, \<lparr>fs_packets = 0, fs_bytes = 0\<rparr>)),
      indigo_fwd_flow_stats_get =
        (\<lambda>flow_id. (INDIGO_ERROR_NONE, \<lparr>fs_packets = 5, fs_bytes = 500\<rparr>)),
      indigo_port_stats_get =
        (\<lambda>req. (INDIGO_ERROR_NONE,
                 \<lparr>psr_version = psq_version req, psr_xid = 0, psr_body = []\<rparr>)),
      of_flow_stats_reply_len = (\<lambda>ver. if ver = OF_VERSION_1_0 then 12 else 16),
      of_flow_stats_entry_len = (\<lambda>ver. if ver = OF_VERSION_1_0 then 88 else 56),
      of_list_append_bind_ok = (\<lambda>reply_len entry_len. reply_len + entry_len \<le> 65535),
      of_match_set_len = (\<lambda>ver m. Some 0),
      of_effects_set_len = (\<lambda>eff. Some (length (eff_body eff)))\<rparr>"

text \<open>An empty switch, and one holding flow A: priority 100, match "in_port = 1".\<close>

definition scenario_empty :: "scenario_match switch_state" where
  "scenario_empty =
     \<lparr>ind_core_ft = [], st_current_count = 0, st_adds = 0, st_deletes = 0,
      st_forwarding_add_errors = 0, next_flow_id = 1, sent = [], fwd_calls = [],
      released = 0\<rparr>"

definition flow_A :: "scenario_match ft_entry" where
  "flow_A =
     \<lparr>e_id = 1, e_table_id = 0, e_priority = 100, e_match = (1, 65535), e_cookie = 0,
      e_idle_timeout = 0, e_hard_timeout = 0, e_flags = 0,
      e_effects = \<lparr>eff_version = OF_VERSION_1_0, eff_body = [0, 0, 0, 8, 0, 1, 0, 0]\<rparr>,
      e_insert_time = 0\<rparr>"

definition scenario_with_A :: "scenario_match switch_state" where
  "scenario_with_A =
     scenario_empty\<lparr>ind_core_ft := [flow_A], st_current_count := 1, st_adds := 1,
                     next_flow_id := 2\<rparr>"

text \<open>
  A version 1.0 flow-mod with xid 42, priority 100, match "in_port = 2" and the action
  "output:3"; the scenarios change its flags, timeouts and match.
\<close>

definition scenario_flow_mod :: "scenario_match of_flow_modify" where
  "scenario_flow_mod =
     \<lparr>fm_version = OF_VERSION_1_0, fm_xid = 42, fm_flags = 0, fm_idle_timeout = 0,
      fm_hard_timeout = 0, fm_table_id = 0, fm_match = Some (2, 65535), fm_priority = 100,
      fm_out_port = 4294967295, fm_cookie = 0, fm_cookie_mask = 0,
      fm_effects = [0, 0, 0, 8, 0, 3, 0, 0]\<rparr>"

definition scenario_flow_stats_request :: "scenario_match of_flow_stats_request" where
  "scenario_flow_stats_request =
     \<lparr>fsr_version = OF_VERSION_1_0, fsr_xid = 77, fsr_match = Some (0, 0),
      fsr_out_port = 4294967295, fsr_table_id = 255, fsr_cookie = 0, fsr_cookie_mask = 0\<rparr>"

definition scenario_port_stats_request :: of_port_stats_request where
  "scenario_port_stats_request =
     \<lparr>psq_version = OF_VERSION_1_0, psq_xid = 4660, psq_port_no = 99\<rparr>"

text \<open>Scenarios in which another module fails.\<close>

definition scenario_env_no_memory :: "scenario_match env" where
  "scenario_env_no_memory = scenario_env\<lparr>INDIGO_MEM_ALLOC_ok := False\<rparr>"

definition scenario_env_create_fails :: "scenario_match env" where
  "scenario_env_create_fails =
     scenario_env\<lparr>indigo_fwd_flow_create := (\<lambda>flow_id obj. (INDIGO_ERROR_RESOURCE, 0))\<rparr>"

definition scenario_env_stats_fail :: "scenario_match env" where
  "scenario_env_stats_fail =
     scenario_env\<lparr>indigo_fwd_flow_stats_get :=
                    (\<lambda>flow_id. (INDIGO_ERROR_NOT_FOUND, \<lparr>fs_packets = 0, fs_bytes = 0\<rparr>))\<rparr>"

definition scenario_env_spawn_fails :: "scenario_match env" where
  "scenario_env_spawn_fails = scenario_env\<lparr>ft_spawn_iter_task_rv := INDIGO_ERROR_RESOURCE\<rparr>"


definition scenario_env_port_fails :: "scenario_match env" where
  "scenario_env_port_fails =
     scenario_env\<lparr>indigo_port_stats_get :=
                    (\<lambda>req. (INDIGO_ERROR_NOT_FOUND,
                             \<lparr>psr_version = psq_version req, psr_xid = 0, psr_body = []\<rparr>))\<rparr>"

text \<open>
  The state of a flow-statistics task as the handler starts it, for a version 1.0 and a
  version 1.3 request; flow C, installed under version 1.3; and flow D, a version 1.0
  flow whose action list is 32768 bytes long.
\<close>

definition scenario_stats_state :: "scenario_match ind_core_flow_stats_state" where
  "scenario_stats_state =
     \<lparr>fss_cxn_id = 7, fss_req = scenario_flow_stats_request, fss_current_time = 5000,
      fss_reply = None\<rparr>"

definition scenario_stats_state_1_3 :: "scenario_match ind_core_flow_stats_state" where
  "scenario_stats_state_1_3 =
     scenario_stats_state\<lparr>fss_req := scenario_flow_stats_request\<lparr>fsr_version := OF_VERSION_1_3\<rparr>\<rparr>"

definition flow_C :: "scenario_match ft_entry" where
  "flow_C = flow_A\<lparr>e_id := 3, e_effects := \<lparr>eff_version = OF_VERSION_1_3, eff_body = []\<rparr>\<rparr>"





section \<open>Properties of the allocators\<close>

lemma xid_counter_eq: "xid_counter n = 1000 + of_nat n"
  by (induction n) (simp_all add: xid_counter_def ind_core_xid_alloc_def xid_initial_def)

lemma flow_id_counter_nonzero: "flow_id_counter n \<noteq> 0"
  by (induction n) (simp_all add: flow_id_counter_def flow_id_next_def flow_id_initial_def Let_def)

lemma flow_id_counter_Suc:
  "flow_id_counter (Suc n) = (if flow_id_counter n = - 1 then 1 else flow_id_counter n + 1)"
proof -
  have "flow_id_counter n + 1 = 0 \<longleftrightarrow> flow_id_counter n = - 1"
    by (metis add.commute add_eq_0_iff)
  then show ?thesis
    by (simp add: flow_id_counter_def flow_id_next_def Let_def)
qed

text \<open>
  C4, as the code has it. The flow-id allocator starts at 1, never returns zero, and each
  call returns the previous value plus one, except that after the maximum 32-bit value
  it returns 1: zero is skipped. The xid allocator starts at 1000 and is a plain
  wrapping counter: the \<open>n\<close>-th call returns the 32-bit value \<open>1000 + n\<close> modulo \<open>2 ^ 32\<close>
  (read as a signed int), with no test for zero.
\<close>

theorem allocators_monotonic_flow_id_skips_zero:
  "flow_id_returned 0 = 1
   \<and> xid_returned 0 = 1000
   \<and> flow_id_returned n \<noteq> 0
   \<and> flow_id_returned (Suc n) = (if flow_id_returned n = - 1 then 1 else flow_id_returned n + 1)
   \<and> xid_returned n = sint (1000 + of_nat n :: 32 word)
   \<and> (word_of_int (xid_returned (Suc n)) :: 32 word) = word_of_int (xid_returned n) + 1"
proof -
  have first: "flow_id_returned 0 = 1 \<and> xid_returned 0 = 1000"
    by (simp add: flow_id_returned_def flow_id_counter_def flow_id_initial_def flow_id_next_def
        xid_returned_def xid_counter_def xid_initial_def ind_core_xid_alloc_def Let_def)
  show ?thesis
    using first flow_id_counter_nonzero [of n] flow_id_counter_Suc [of n]
    by (simp add: flow_id_returned_def xid_returned_def flow_id_next_def ind_core_xid_alloc_def
        xid_counter_eq Let_def)
qed

text \<open>
  C4 as stated fails for the xid allocator: its call number \<open>2 ^ 32 - 1000\<close> (counting
  from 0) returns zero.
\<close>

theorem xid_alloc_returns_zero_after_wrap: "xid_returned 4294966296 = 0"
  by (simp add: xid_returned_def ind_core_xid_alloc_def xid_counter_eq)

section \<open>The request object is released\<close>

lemma released_send_error [simp]:
  "released (ind_core_send_error_msg ver cxn_id xid etype code s) = released s"
  by (simp add: ind_core_send_error_msg_def)

lemma released_msg_send [simp]: "released (IND_CORE_MSG_SEND msg s) = released s"
  by (simp add: IND_CORE_MSG_SEND_def)

lemma released_ft_delete [simp]: "released (ft_delete entry s) = released s"
  by (simp add: ft_delete_def)

lemma released_entry_delete [simp]:
  "released (ind_core_flow_entry_delete env entry reason cxn_id s) = released s"
  by (simp add: ind_core_flow_entry_delete_def Let_def)

lemma released_err_msg_send [simp]:
  "released (flow_mod_err_msg_send rv ver cxn_id obj s) = released s"
  by (cases rv) (simp_all add: flow_mod_err_msg_send_def)

lemma released_table_id_set [simp]:
  "released (entry_table_id_set table_id s) = released s"
  by (simp add: entry_table_id_set_def split: list.splits)

lemma released_flow_id_alloc [simp]: "released (snd (flow_id_alloc s)) = released s"
  by (simp add: flow_id_alloc_def)

lemma released_ft_add:
  "ft_add env flow_id obj s = Inr added \<Longrightarrow> released (snd added) = released s"
  by (auto simp: ft_add_def Let_def split: if_splits option.splits)

lemma released_flow_add_until_done:
  "released (snd (flow_add_until_done env obj cxn_id s)) = released s"
  by (auto simp: flow_add_until_done_def Let_def dest: released_ft_add
      split: sum.splits option.splits)

text \<open>
  C3. Whatever the message, the table and the answers of the other modules,
  \<^verbatim>\<open>ind_core_flow_add_handler\<close> returns \<open>INDIGO_ERROR_NONE\<close> and deletes the inbound
  message exactly once: every path, the overlap rejection, the emergency-timeout
  rejection and the forwarding failure among them, ends at the label \<^verbatim>\<open>done\<close>.
\<close>

theorem flow_add_releases_once_returns_none:
  "fst (ind_core_flow_add_handler env obj cxn_id s) = INDIGO_ERROR_NONE
   \<and> released (snd (ind_core_flow_add_handler env obj cxn_id s)) = released s + 1"
  by (simp add: ind_core_flow_add_handler_def of_object_delete_def released_flow_add_until_done)

section \<open>Rejections of a flow-add\<close>

lemma overlap_found_hit:
  assumes "flow_mod_setup_query env obj OF_MATCH_OVERLAP True = Inr query"
    and "entry \<in> set (ind_core_ft s)"
    and "ft_entry_meta_match env query entry"
  shows "overlap_found env obj s = 1"
  using assms by (auto simp: overlap_found_def list_ex_iff)

lemma setup_query_overlap_fields:
  assumes "flow_mod_setup_query env obj OF_MATCH_OVERLAP True = Inr query"
  shows "q_mode query = OF_MATCH_OVERLAP \<and> q_check_priority query
         \<and> q_priority query = fm_priority obj
         \<and> q_out_port query = OF_PORT_DEST_WILDCARD env
         \<and> fm_match obj = Some (q_match query)"
  using assms by (auto simp: flow_mod_setup_query_def Let_def split: option.splits)

text \<open>
  The overlap test of the scenarios' match predicate is the existence of a common point:
  some packet value \<open>p\<close> agrees with both matches on the bits each of them compares.
\<close>

lemma common_point_iff:
  fixes qv qm ev em :: "32 word"
  shows "(\<exists>p. ((p XOR qv) AND qm) = 0 \<and> ((p XOR ev) AND em) = 0)
         \<longleftrightarrow> ((qv XOR ev) AND qm AND em) = 0"
proof
  assume "\<exists>p. ((p XOR qv) AND qm) = 0 \<and> ((p XOR ev) AND em) = 0"
  then obtain p where p: "((p XOR qv) AND qm) = 0" "((p XOR ev) AND em) = 0" by blast
  show "((qv XOR ev) AND qm AND em) = 0"
  proof (rule bit_eqI)
    fix n
    have "bit ((p XOR qv) AND qm) n = False" "bit ((p XOR ev) AND em) n = False"
      using p by simp_all
    then show "bit ((qv XOR ev) AND qm AND em) n = bit (0::32 word) n"
      by (auto simp: bit_and_iff bit_xor_iff)
  qed
next
  assume a: "((qv XOR ev) AND qm AND em) = 0"
  have "(( ((qv AND qm) OR (ev AND NOT qm)) XOR qv) AND qm) = 0"
    by (rule bit_eqI) (auto simp: bit_and_iff bit_xor_iff bit_or_iff bit_not_iff dest: bit_imp_le_length)
  moreover have "(( ((qv AND qm) OR (ev AND NOT qm)) XOR ev) AND em) = 0"
  proof (rule bit_eqI)
    fix n
    have "bit ((qv XOR ev) AND qm AND em) n = False" using a by simp
    then show "bit ((( (qv AND qm) OR (ev AND NOT qm)) XOR ev) AND em) n = bit (0::32 word) n"
      by (auto simp: bit_and_iff bit_xor_iff bit_or_iff bit_not_iff dest: bit_imp_le_length)
  qed
  ultimately show "\<exists>p. ((p XOR qv) AND qm) = 0 \<and> ((p XOR ev) AND em) = 0" by blast
qed

lemma scenario_overlap_common_point:
  assumes "q_mode query = OF_MATCH_OVERLAP"
  shows "scenario_meta_match query entry \<longleftrightarrow>
           q_priority query = e_priority entry
           \<and> (\<exists>p. ((p XOR fst (q_match query)) AND snd (q_match query)) = 0
                  \<and> ((p XOR fst (e_match entry)) AND snd (e_match entry)) = 0)"
  using assms by (simp add: scenario_meta_match_def Let_def common_point_iff)

text \<open>
  The overlap rejection in the words of the specification, for any flow table whose match
  predicate answers an OVERLAP query as the specification says (equal priority and a
  common point \<open>p\<close> of the two matches, whatever a point of a match is): an entry at the
  priority of the message that shares a point with its match has the message rejected.
\<close>

lemma flow_add_overlap_rejected_by_common_point:
  assumes flag: "(fm_flags obj AND OF_FLOW_MOD_FLAG_CHECK_OVERLAP_BY_VERSION env (fm_version obj)) \<noteq> 0"
    and m: "fm_match obj = Some m"
    and semantics: "\<And>query entry. q_mode query = OF_MATCH_OVERLAP \<Longrightarrow>
        ft_entry_meta_match env query entry \<longleftrightarrow>
          (q_priority query = e_priority entry
           \<and> (\<exists>p. covers (q_match query) p \<and> covers (e_match entry) p))"
    and entry: "entry \<in> set (ind_core_ft s)" "e_priority entry = fm_priority obj"
    and point: "covers m p" "covers (e_match entry) p"
  shows "ind_core_flow_add_handler env obj cxn_id s =
           (INDIGO_ERROR_NONE,
            s\<lparr>sent := sent s @ [OF_ERROR_MSG (fm_version obj) cxn_id (fm_xid obj)
                                   OF_ERROR_TYPE_FLOW_MOD_FAILED OF_FLOW_MOD_FAILED_OVERLAP],
              released := released s + 1\<rparr>)"
proof -
  obtain query where query: "flow_mod_setup_query env obj OF_MATCH_OVERLAP True = Inr query"
    using m by (simp add: flow_mod_setup_query_def Let_def)
  note fields = setup_query_overlap_fields [OF query]
  have "q_match query = m" using fields m by simp
  then have "ft_entry_meta_match env query entry"
    using semantics [of query entry] fields entry point by auto
  then have "overlap_found env obj s = 1"
    using query entry(1) by (rule overlap_found_hit [rotated 2])
  then show ?thesis
    using flag
    by (simp add: ind_core_flow_add_handler_def flow_add_until_done_def Let_def
        ind_core_send_error_msg_def of_object_delete_def)
qed

text \<open>
  C7. A flow-add with the CHECK_OVERLAP flag, when some entry of the flow table matches
  the query \<^verbatim>\<open>overlap_found\<close> builds from the message (mode OVERLAP, the priority of the
  message, the wildcard out-port): the handler sends FLOW_MOD_FAILED / OVERLAP with the
  xid of the request, deletes the request, returns \<open>INDIGO_ERROR_NONE\<close>, and changes
  nothing else: the flow table, its counters and the flow-id counter are as before and
  forwarding is not called. Which entries overlap a query is \<^verbatim>\<open>ft_entry_meta_match\<close>'s
  answer (\<^verbatim>\<open>ft.c\<close>), for which the theorem holds whatever it is.
\<close>

theorem flow_add_overlap_rejected:
  assumes "(fm_flags obj AND OF_FLOW_MOD_FLAG_CHECK_OVERLAP_BY_VERSION env (fm_version obj)) \<noteq> 0"
    and "flow_mod_setup_query env obj OF_MATCH_OVERLAP True = Inr query"
    and "entry \<in> set (ind_core_ft s)"
    and "ft_entry_meta_match env query entry"
  shows "ind_core_flow_add_handler env obj cxn_id s =
           (INDIGO_ERROR_NONE,
            s\<lparr>sent := sent s @ [OF_ERROR_MSG (fm_version obj) cxn_id (fm_xid obj)
                                   OF_ERROR_TYPE_FLOW_MOD_FAILED OF_FLOW_MOD_FAILED_OVERLAP],
              released := released s + 1\<rparr>)
         \<and> q_mode query = OF_MATCH_OVERLAP \<and> q_priority query = fm_priority obj
         \<and> q_out_port query = OF_PORT_DEST_WILDCARD env"
  using assms(1) overlap_found_hit [OF assms(2,3,4)] setup_query_overlap_fields [OF assms(2)]
  by (simp add: ind_core_flow_add_handler_def flow_add_until_done_def Let_def
      ind_core_send_error_msg_def of_object_delete_def)

text \<open>
  Its witness is scenario S2 of the specification: flow A (priority 100, in_port = 1) is
  installed, and flow B with CHECK_OVERLAP, priority 100 and in_port wildcarded is added.
  The error carries B's xid 43 and the table still counts one entry.
\<close>

theorem flow_add_overlap_rejected_witness:
  "ind_core_flow_add_handler scenario_env
     (scenario_flow_mod\<lparr>fm_xid := 43, fm_flags := 2, fm_match := Some (0, 0)\<rparr>) 7 scenario_with_A =
   (INDIGO_ERROR_NONE,
    scenario_with_A\<lparr>sent := [OF_ERROR_MSG OF_VERSION_1_0 7 43 OF_ERROR_TYPE_FLOW_MOD_FAILED
                                OF_FLOW_MOD_FAILED_OVERLAP],
                    released := 1\<rparr>)
   \<and> st_current_count scenario_with_A = 1"
  using flow_add_overlap_rejected [of "scenario_flow_mod\<lparr>fm_xid := 43, fm_flags := 2, fm_match := Some (0, 0)\<rparr>"
      scenario_env
      "\<lparr>q_table_id = 255, q_match = (0, 0), q_mode = OF_MATCH_OVERLAP, q_check_priority = True,
        q_priority = 100, q_out_port = 4294967295, q_cookie = 0, q_cookie_mask = 0\<rparr>"
      flow_A scenario_with_A 7]
  by (simp add: scenario_env_def scenario_flow_mod_def scenario_with_A_def scenario_empty_def
      flow_A_def flow_mod_setup_query_def scenario_meta_match_def)

text \<open>
  C2, as the code has it. A flow-add with the EMERG flag and a nonzero idle or hard
  timeout, unless the CHECK_OVERLAP test has rejected it before: the handler sends
  FLOW_MOD_FAILED / BAD_EMERG_TIMEOUT with the xid of the request, deletes the request
  and changes nothing else. (What the handler returns is the subject of C3.)
\<close>

theorem flow_add_emerg_timeout_error:
  assumes "(fm_flags obj AND OF_FLOW_MOD_FLAG_EMERG_BY_VERSION env (fm_version obj)) \<noteq> 0"
    and "fm_idle_timeout obj \<noteq> 0 \<or> fm_hard_timeout obj \<noteq> 0"
    and "\<not> ((fm_flags obj AND OF_FLOW_MOD_FLAG_CHECK_OVERLAP_BY_VERSION env (fm_version obj)) \<noteq> 0
           \<and> overlap_found env obj s \<noteq> 0)"
  shows "snd (ind_core_flow_add_handler env obj cxn_id s) =
           s\<lparr>sent := sent s @ [OF_ERROR_MSG (fm_version obj) cxn_id (fm_xid obj)
                                  OF_ERROR_TYPE_FLOW_MOD_FAILED OF_FLOW_MOD_FAILED_BAD_EMERG_TIMEOUT],
             released := released s + 1\<rparr>"
  using assms
  by (auto simp: ind_core_flow_add_handler_def flow_add_until_done_def Let_def
      ind_core_send_error_msg_def of_object_delete_def)

text \<open>
  Its witness: with flow A installed, a version 1.0 flow-add with the EMERG flag (4), no
  CHECK_OVERLAP flag and idle timeout 10.
\<close>

theorem flow_add_emerg_timeout_error_witness:
  "snd (ind_core_flow_add_handler scenario_env
          (scenario_flow_mod\<lparr>fm_flags := 4, fm_idle_timeout := 10\<rparr>) 7 scenario_with_A) =
   scenario_with_A\<lparr>sent := [OF_ERROR_MSG OF_VERSION_1_0 7 42 OF_ERROR_TYPE_FLOW_MOD_FAILED
                               OF_FLOW_MOD_FAILED_BAD_EMERG_TIMEOUT],
                   released := 1\<rparr>"
  using flow_add_emerg_timeout_error [of "scenario_flow_mod\<lparr>fm_flags := 4, fm_idle_timeout := 10\<rparr>"
      scenario_env scenario_with_A 7]
  by (simp add: scenario_env_def scenario_flow_mod_def scenario_with_A_def scenario_empty_def)

text \<open>
  C2 as stated fails. With flow A installed, a version 1.0 flow-add with the flags
  CHECK_OVERLAP and EMERG (6), idle timeout 10 and a match overlapping A at A's priority
  has the EMERG flag and a nonzero timeout; the handler returns \<open>INDIGO_ERROR_NONE\<close>, not
  PARAM, and the one error it sends is OVERLAP, not BAD_EMERG_TIMEOUT.
\<close>

theorem flow_add_emerg_timeout_counterexample:
  "fst (ind_core_flow_add_handler scenario_env
          (scenario_flow_mod\<lparr>fm_xid := 43, fm_flags := 6, fm_idle_timeout := 10,
                             fm_match := Some (0, 0)\<rparr>) 7 scenario_with_A) = INDIGO_ERROR_NONE
   \<and> sent (snd (ind_core_flow_add_handler scenario_env
          (scenario_flow_mod\<lparr>fm_xid := 43, fm_flags := 6, fm_idle_timeout := 10,
                             fm_match := Some (0, 0)\<rparr>) 7 scenario_with_A)) =
       [OF_ERROR_MSG OF_VERSION_1_0 7 43 OF_ERROR_TYPE_FLOW_MOD_FAILED OF_FLOW_MOD_FAILED_OVERLAP]"
  by (simp add: ind_core_flow_add_handler_def flow_add_until_done_def Let_def overlap_found_def
      flow_mod_setup_query_def ind_core_send_error_msg_def of_object_delete_def
      scenario_env_def scenario_flow_mod_def scenario_with_A_def scenario_empty_def
      flow_A_def scenario_meta_match_def)

section \<open>Overwrite followed by a forwarding failure\<close>

lemma fwd_calls_send_error [simp]:
  "fwd_calls (ind_core_send_error_msg ver cxn_id xid etype code s) = fwd_calls s"
  by (simp add: ind_core_send_error_msg_def)

lemma fwd_calls_ft_delete [simp]: "fwd_calls (ft_delete entry s) = fwd_calls s"
  by (simp add: ft_delete_def)

lemma fwd_calls_err_msg_send [simp]:
  "fwd_calls (flow_mod_err_msg_send rv ver cxn_id obj s) = fwd_calls s"
  by (cases rv) (simp_all add: flow_mod_err_msg_send_def)

lemma fwd_calls_entry_delete [simp]:
  "fwd_calls (ind_core_flow_entry_delete env entry reason cxn_id s) =
     fwd_calls s @ [FWD_FLOW_DELETE (e_id entry)]"
  by (simp add: ind_core_flow_entry_delete_def Let_def IND_CORE_MSG_SEND_def)

text \<open>
  When \<^verbatim>\<open>ind_core_flow_add_handler\<close> calls \<^verbatim>\<open>indigo_fwd_flow_create\<close>: exactly when neither
  the overlap test nor the emergency-timeout test rejects the message, its match
  decodes, and \<^verbatim>\<open>ft_add\<close> can allocate the entry.
\<close>

lemma flow_create_called_iff:
  "(\<exists>flow_id. FWD_FLOW_CREATE flow_id \<in>
       set (drop (length (fwd_calls s))
              (fwd_calls (snd (ind_core_flow_add_handler env obj cxn_id s)))))
   \<longleftrightarrow>
   \<not> ((fm_flags obj AND OF_FLOW_MOD_FLAG_CHECK_OVERLAP_BY_VERSION env (fm_version obj)) \<noteq> 0
        \<and> overlap_found env obj s \<noteq> 0)
   \<and> \<not> ((fm_flags obj AND OF_FLOW_MOD_FLAG_EMERG_BY_VERSION env (fm_version obj)) \<noteq> 0
        \<and> \<not> (fm_idle_timeout obj = 0 \<and> fm_hard_timeout obj = 0))
   \<and> fm_match obj \<noteq> None
   \<and> ft_add_alloc_ok env"
  by (auto simp: ind_core_flow_add_handler_def flow_add_until_done_def Let_def
      of_object_delete_def flow_mod_setup_query_def ft_add_def flow_id_alloc_def
      entry_table_id_set_def
      split: option.splits)

text \<open>
  C10. A flow-add that passes the overlap and emergency-timeout tests, whose strict query
  finds the entry \<open>old\<close>, and for whose new flow (flow id \<open>new_id\<close>, entry allocated by
  \<^verbatim>\<open>ft_add\<close>) forwarding's \<^verbatim>\<open>flow_create\<close> fails: afterwards the flow table is the one
  before without \<open>old\<close> and without any entry of the new flow id. The old entry was
  deleted at forwarding before the create was tried, and is not restored. (The
  hypotheses next to the strict match and the failure are those under which the handler
  calls \<^verbatim>\<open>indigo_fwd_flow_create\<close> at all, by \<open>flow_create_called_iff\<close>.)
\<close>

theorem flow_add_overwrite_not_rolled_back:
  assumes no_overlap:
      "\<not> ((fm_flags obj AND OF_FLOW_MOD_FLAG_CHECK_OVERLAP_BY_VERSION env (fm_version obj)) \<noteq> 0
          \<and> overlap_found env obj s \<noteq> 0)"
    and no_emerg:
      "\<not> ((fm_flags obj AND OF_FLOW_MOD_FLAG_EMERG_BY_VERSION env (fm_version obj)) \<noteq> 0
          \<and> \<not> (fm_idle_timeout obj = 0 \<and> fm_hard_timeout obj = 0))"
    and query: "flow_mod_setup_query env obj OF_MATCH_STRICT True = Inr query"
    and old: "ft_strict_match env (ind_core_ft s) query = Some old"
    and alloc: "ft_add_alloc_ok env"
    and new_id: "new_id = fst (flow_id_next (next_flow_id s))"
    and failed: "fst (indigo_fwd_flow_create env new_id obj) \<noteq> INDIGO_ERROR_NONE"
  shows "ind_core_ft (snd (ind_core_flow_add_handler env obj cxn_id s)) =
           filter (\<lambda>e. e_id e \<noteq> e_id old \<and> e_id e \<noteq> new_id) (ind_core_ft s)
         \<and> old \<in> set (ind_core_ft s)
         \<and> old \<notin> set (ind_core_ft (snd (ind_core_flow_add_handler env obj cxn_id s)))
         \<and> \<not> list_ex (\<lambda>e. e_id e = new_id) (ind_core_ft (snd (ind_core_flow_add_handler env obj cxn_id s)))
         \<and> fwd_calls (snd (ind_core_flow_add_handler env obj cxn_id s)) =
             fwd_calls s @ [FWD_FLOW_DELETE (e_id old), FWD_FLOW_CREATE new_id]"
proof -
  from query obtain m where m: "fm_match obj = Some m"
    by (auto simp: flow_mod_setup_query_def split: option.splits)
  have present: "list_ex (\<lambda>e. e_id e = e_id old) (ind_core_ft s)" and mem: "old \<in> set (ind_core_ft s)"
    using old by (auto simp: ft_strict_match_def find_Some_iff list_ex_iff)
  have ft: "ind_core_ft (snd (ind_core_flow_add_handler env obj cxn_id s)) =
           filter (\<lambda>e. e_id e \<noteq> e_id old \<and> e_id e \<noteq> new_id) (ind_core_ft s)"
    and calls: "fwd_calls (snd (ind_core_flow_add_handler env obj cxn_id s)) =
             fwd_calls s @ [FWD_FLOW_DELETE (e_id old), FWD_FLOW_CREATE new_id]"
    using no_overlap no_emerg query old alloc failed m present
    by (auto simp: ind_core_flow_add_handler_def flow_add_until_done_def Let_def
        of_object_delete_def ind_core_flow_entry_delete_def ft_delete_def flow_id_alloc_def
        ft_add_def new_id IND_CORE_MSG_SEND_def flow_mod_err_msg_send_def
        ind_core_send_error_msg_def conj_commute
        split: indigo_error.splits)
  show ?thesis using ft calls mem by (auto simp: list_ex_iff)
qed

text \<open>
  Its witness: flow A is installed, a flow-add with A's match and priority arrives, and
  forwarding answers \<^verbatim>\<open>flow_create\<close> with RESOURCE. The table is empty afterwards.
\<close>

theorem flow_add_overwrite_not_rolled_back_witness:
  "ind_core_ft (snd (ind_core_flow_add_handler scenario_env_create_fails
          (scenario_flow_mod\<lparr>fm_match := Some (1, 65535)\<rparr>) 7 scenario_with_A)) = []
   \<and> fwd_calls (snd (ind_core_flow_add_handler scenario_env_create_fails
          (scenario_flow_mod\<lparr>fm_match := Some (1, 65535)\<rparr>) 7 scenario_with_A)) =
       [FWD_FLOW_DELETE 1, FWD_FLOW_CREATE 2]"
proof -
  let ?obj = "scenario_flow_mod\<lparr>fm_match := Some (1, 65535)\<rparr>"
  let ?query = "\<lparr>q_table_id = 255, q_match = (1, 65535), q_mode = OF_MATCH_STRICT,
                 q_check_priority = True, q_priority = 100, q_out_port = 4294967295,
                 q_cookie = 0, q_cookie_mask = 0\<rparr> :: scenario_match of_meta_match"
  have h1: "\<not> ((fm_flags ?obj AND OF_FLOW_MOD_FLAG_CHECK_OVERLAP_BY_VERSION
                   scenario_env_create_fails (fm_version ?obj)) \<noteq> 0
          \<and> overlap_found scenario_env_create_fails ?obj scenario_with_A \<noteq> 0)"
    by (simp add: scenario_flow_mod_def)
  have h2: "\<not> ((fm_flags ?obj AND OF_FLOW_MOD_FLAG_EMERG_BY_VERSION
                   scenario_env_create_fails (fm_version ?obj)) \<noteq> 0
          \<and> \<not> (fm_idle_timeout ?obj = 0 \<and> fm_hard_timeout ?obj = 0))"
    by (simp add: scenario_flow_mod_def)
  have h3: "flow_mod_setup_query scenario_env_create_fails ?obj OF_MATCH_STRICT True = Inr ?query"
    by (simp add: scenario_env_create_fails_def scenario_env_def scenario_flow_mod_def
        flow_mod_setup_query_def)
  have h4: "ft_strict_match scenario_env_create_fails (ind_core_ft scenario_with_A) ?query =
              Some flow_A"
    by (simp add: scenario_env_create_fails_def scenario_env_def scenario_with_A_def
        scenario_empty_def flow_A_def ft_strict_match_def scenario_meta_match_def)
  have h5: "ft_add_alloc_ok scenario_env_create_fails"
    by (simp add: scenario_env_create_fails_def scenario_env_def)
  have h6: "(2::32 word) = fst (flow_id_next (next_flow_id scenario_with_A))"
    by (simp add: scenario_with_A_def scenario_empty_def flow_id_next_def)
  have h7: "fst (indigo_fwd_flow_create scenario_env_create_fails 2 ?obj) \<noteq> INDIGO_ERROR_NONE"
    by (simp add: scenario_env_create_fails_def scenario_env_def)
  show ?thesis
    using flow_add_overwrite_not_rolled_back [OF h1 h2 h3 h4 h5 h6 h7, of 7]
    by (simp add: scenario_with_A_def scenario_empty_def flow_A_def)
qed

section \<open>A modify that matches nothing\<close>

lemma iter_task_no_match:
  "filter (ft_entry_meta_match env query) (ind_core_ft s) = [] \<Longrightarrow>
   ft_iter_task env query cb cookie s = cb cookie None s"
  by (simp add: ft_iter_task_def)

text \<open>
  C6, as the code has it. A MODIFY-STRICT whose strict query finds no entry gives the
  result of \<^verbatim>\<open>ind_core_flow_add_handler\<close> on the same message: the same state (flow
  table, counters, forwarding calls, messages sent, release of the request) and the
  same return value (first conjunct). A non-strict MODIFY whose query matches no entry
  does so too, provided the handler could allocate its state struct and spawn the
  iteration task; the add is then made by the task's terminal callback (second
  conjunct). When the allocation fails the handler returns RESOURCE, and the flow
  table, its counters, the flow-id counter, the forwarding calls and the messages sent
  are as before: nothing is added (third conjunct). When the spawn fails the handler
  returns the status of the spawn, deletes the request and changes nothing else
  (fourth conjunct).
\<close>

theorem modify_without_match_is_add:
  "(flow_mod_setup_query env obj OF_MATCH_STRICT True = Inr query
      \<and> ft_strict_match env (ind_core_ft s) query = None
    \<longrightarrow> ind_core_flow_modify_strict_handler env obj cxn_id s =
          ind_core_flow_add_handler env obj cxn_id s)
   \<and> (INDIGO_MEM_ALLOC_ok env \<and> ft_spawn_iter_task_rv env = INDIGO_ERROR_NONE
      \<and> flow_mod_setup_query env obj OF_MATCH_NON_STRICT True = Inr query'
      \<and> filter (ft_entry_meta_match env query') (ind_core_ft s) = []
    \<longrightarrow> ind_core_flow_modify_handler env obj cxn_id s =
          ind_core_flow_add_handler env obj cxn_id s)
   \<and> (\<not> INDIGO_MEM_ALLOC_ok env
    \<longrightarrow> fst (ind_core_flow_modify_handler env obj cxn_id s) = INDIGO_ERROR_RESOURCE
        \<and> ind_core_ft (snd (ind_core_flow_modify_handler env obj cxn_id s)) = ind_core_ft s
        \<and> st_current_count (snd (ind_core_flow_modify_handler env obj cxn_id s)) = st_current_count s
        \<and> st_adds (snd (ind_core_flow_modify_handler env obj cxn_id s)) = st_adds s
        \<and> st_deletes (snd (ind_core_flow_modify_handler env obj cxn_id s)) = st_deletes s
        \<and> st_forwarding_add_errors (snd (ind_core_flow_modify_handler env obj cxn_id s)) =
            st_forwarding_add_errors s
        \<and> next_flow_id (snd (ind_core_flow_modify_handler env obj cxn_id s)) = next_flow_id s
        \<and> fwd_calls (snd (ind_core_flow_modify_handler env obj cxn_id s)) = fwd_calls s
        \<and> sent (snd (ind_core_flow_modify_handler env obj cxn_id s)) = sent s)
   \<and> (INDIGO_MEM_ALLOC_ok env \<and> ft_spawn_iter_task_rv env \<noteq> INDIGO_ERROR_NONE
      \<and> flow_mod_setup_query env obj OF_MATCH_NON_STRICT True = Inr query'
    \<longrightarrow> ind_core_flow_modify_handler env obj cxn_id s =
          (ft_spawn_iter_task_rv env, s\<lparr>released := released s + 1\<rparr>))"
proof (intro conjI impI)
  assume "flow_mod_setup_query env obj OF_MATCH_STRICT True = Inr query
      \<and> ft_strict_match env (ind_core_ft s) query = None"
  then show "ind_core_flow_modify_strict_handler env obj cxn_id s =
          ind_core_flow_add_handler env obj cxn_id s"
    by (simp add: ind_core_flow_modify_strict_handler_def)
next
  assume a: "INDIGO_MEM_ALLOC_ok env \<and> ft_spawn_iter_task_rv env = INDIGO_ERROR_NONE
      \<and> flow_mod_setup_query env obj OF_MATCH_NON_STRICT True = Inr query'
      \<and> filter (ft_entry_meta_match env query') (ind_core_ft s) = []"
  then have "ft_iter_task env query' (modify_iter_cb env)
               \<lparr>fms_request = obj, fms_cxn_id = cxn_id, fms_num_matched = 0\<rparr> s =
             modify_iter_cb env \<lparr>fms_request = obj, fms_cxn_id = cxn_id, fms_num_matched = 0\<rparr> None s"
    by (simp add: iter_task_no_match)
  with a show "ind_core_flow_modify_handler env obj cxn_id s =
          ind_core_flow_add_handler env obj cxn_id s"
    by (simp add: ind_core_flow_modify_handler_def modify_iter_cb_def Let_def
        ind_core_flow_add_handler_def)
next
  assume b: "INDIGO_MEM_ALLOC_ok env \<and> ft_spawn_iter_task_rv env \<noteq> INDIGO_ERROR_NONE
      \<and> flow_mod_setup_query env obj OF_MATCH_NON_STRICT True = Inr query'"
  then show "ind_core_flow_modify_handler env obj cxn_id s =
          (ft_spawn_iter_task_rv env, s\<lparr>released := released s + 1\<rparr>)"
    by (simp add: ind_core_flow_modify_handler_def Let_def of_object_delete_def)
qed (simp_all add: ind_core_flow_modify_handler_def)

text \<open>The add of the scenario flow-mod to the empty switch, whatever \<^verbatim>\<open>INDIGO_MEM_ALLOC\<close> does.\<close>

lemma scenario_add_empty:
  "ind_core_flow_add_handler (scenario_env\<lparr>INDIGO_MEM_ALLOC_ok := b\<rparr>) scenario_flow_mod 7
     scenario_empty =
    (INDIGO_ERROR_NONE,
     \<lparr>ind_core_ft =
        [\<lparr>e_id = 1, e_table_id = 0, e_priority = 100, e_match = (2, 65535),
          e_cookie = 0, e_idle_timeout = 0, e_hard_timeout = 0, e_flags = 0,
          e_effects = \<lparr>eff_version = OF_VERSION_1_0, eff_body = [0, 0, 0, 8, 0, 3, 0, 0]\<rparr>,
          e_insert_time = 5000\<rparr>],
      st_current_count = 1, st_adds = 1, st_deletes = 0,
      st_forwarding_add_errors = 0, next_flow_id = 2, sent = [],
      fwd_calls = [FWD_FLOW_CREATE 1], released = 1\<rparr>)"
  by (simp add: ind_core_flow_add_handler_def flow_add_until_done_def Let_def
      flow_mod_setup_query_def ft_strict_match_def flow_id_alloc_def flow_id_next_def
      ft_add_def entry_table_id_set_def of_object_delete_def
      scenario_env_def scenario_flow_mod_def scenario_empty_def)

lemma scenario_env_alloc_True: "scenario_env\<lparr>INDIGO_MEM_ALLOC_ok := True\<rparr> = scenario_env"
  by (simp add: scenario_env_def)

text \<open>
  Its witness is scenario S3 of the specification: the table is empty and a modify with
  match "in_port = 2" and action "output:3" arrives. Either modify gives the result of
  the add: one entry, \<^verbatim>\<open>flow_create\<close> called once, no error sent. When the spawn of the
  task or the allocation of the state struct fails instead, the non-strict modify
  returns RESOURCE and the table stays empty.
\<close>

theorem modify_without_match_is_add_witness:
  "ind_core_flow_modify_strict_handler scenario_env scenario_flow_mod 7 scenario_empty =
     ind_core_flow_add_handler scenario_env scenario_flow_mod 7 scenario_empty
   \<and> ind_core_flow_modify_handler scenario_env scenario_flow_mod 7 scenario_empty =
     ind_core_flow_add_handler scenario_env scenario_flow_mod 7 scenario_empty
   \<and> st_current_count (snd (ind_core_flow_modify_handler scenario_env scenario_flow_mod 7 scenario_empty)) = 1
   \<and> fwd_calls (snd (ind_core_flow_modify_handler scenario_env scenario_flow_mod 7 scenario_empty)) =
       [FWD_FLOW_CREATE 1]
   \<and> sent (snd (ind_core_flow_modify_handler scenario_env scenario_flow_mod 7 scenario_empty)) = []
   \<and> ind_core_flow_modify_handler scenario_env_spawn_fails scenario_flow_mod 7 scenario_empty =
       (INDIGO_ERROR_RESOURCE, scenario_empty\<lparr>released := 1\<rparr>)
   \<and> fst (ind_core_flow_modify_handler scenario_env_no_memory scenario_flow_mod 7 scenario_empty) =
       INDIGO_ERROR_RESOURCE
   \<and> ind_core_ft (snd (ind_core_flow_modify_handler scenario_env_no_memory scenario_flow_mod 7
                          scenario_empty)) = []"
proof -
  have strict_query:
    "flow_mod_setup_query scenario_env scenario_flow_mod OF_MATCH_STRICT True =
       Inr \<lparr>q_table_id = 255, q_match = (2, 65535), q_mode = OF_MATCH_STRICT,
            q_check_priority = True, q_priority = 100, q_out_port = 4294967295,
            q_cookie = 0, q_cookie_mask = 0\<rparr>"
    by (simp add: scenario_env_def scenario_flow_mod_def flow_mod_setup_query_def)
  have non_strict_query:
    "flow_mod_setup_query scenario_env scenario_flow_mod OF_MATCH_NON_STRICT True =
       Inr \<lparr>q_table_id = 255, q_match = (2, 65535), q_mode = OF_MATCH_NON_STRICT,
            q_check_priority = False, q_priority = 0, q_out_port = 4294967295,
            q_cookie = 0, q_cookie_mask = 0\<rparr>"
    by (simp add: scenario_env_def scenario_flow_mod_def flow_mod_setup_query_def)
  have empty: "ind_core_ft scenario_empty = [] \<and> released scenario_empty = 0"
    by (simp add: scenario_empty_def)
  have ok: "INDIGO_MEM_ALLOC_ok scenario_env \<and> ft_spawn_iter_task_rv scenario_env = INDIGO_ERROR_NONE"
    by (simp add: scenario_env_def)
  have eqs: "ind_core_flow_modify_strict_handler scenario_env scenario_flow_mod 7 scenario_empty =
     ind_core_flow_add_handler scenario_env scenario_flow_mod 7 scenario_empty
   \<and> ind_core_flow_modify_handler scenario_env scenario_flow_mod 7 scenario_empty =
     ind_core_flow_add_handler scenario_env scenario_flow_mod 7 scenario_empty"
    using modify_without_match_is_add [of scenario_env scenario_flow_mod _ scenario_empty 7]
      strict_query non_strict_query ok
    by (simp add: empty ft_strict_match_def)
  have spawn_query:
    "flow_mod_setup_query scenario_env_spawn_fails scenario_flow_mod OF_MATCH_NON_STRICT True =
       Inr \<lparr>q_table_id = 255, q_match = (2, 65535), q_mode = OF_MATCH_NON_STRICT,
            q_check_priority = False, q_priority = 0, q_out_port = 4294967295,
            q_cookie = 0, q_cookie_mask = 0\<rparr>"
    by (simp add: scenario_env_spawn_fails_def scenario_env_def scenario_flow_mod_def
        flow_mod_setup_query_def)
  have spawn: "INDIGO_MEM_ALLOC_ok scenario_env_spawn_fails
               \<and> ft_spawn_iter_task_rv scenario_env_spawn_fails = INDIGO_ERROR_RESOURCE"
    by (simp add: scenario_env_spawn_fails_def scenario_env_def)
  have no_memory: "\<not> INDIGO_MEM_ALLOC_ok scenario_env_no_memory"
    by (simp add: scenario_env_no_memory_def scenario_env_def)
  have spawn_fails:
    "ind_core_flow_modify_handler scenario_env_spawn_fails scenario_flow_mod 7 scenario_empty =
       (INDIGO_ERROR_RESOURCE, scenario_empty\<lparr>released := 1\<rparr>)"
    using modify_without_match_is_add [of scenario_env_spawn_fails scenario_flow_mod _ scenario_empty 7]
      spawn_query spawn
    by (simp add: empty)
  have alloc_fails:
    "fst (ind_core_flow_modify_handler scenario_env_no_memory scenario_flow_mod 7 scenario_empty) =
       INDIGO_ERROR_RESOURCE
     \<and> ind_core_ft (snd (ind_core_flow_modify_handler scenario_env_no_memory scenario_flow_mod 7
                            scenario_empty)) = []"
    using modify_without_match_is_add [of scenario_env_no_memory scenario_flow_mod _ scenario_empty 7]
      no_memory
    by (simp add: empty)
  show ?thesis
    using eqs scenario_add_empty [of True] spawn_fails alloc_fails
    by (simp add: scenario_env_alloc_True)
qed

text \<open>
  C6 as stated fails for the non-strict MODIFY when \<^verbatim>\<open>INDIGO_MEM_ALLOC\<close> returns NULL.
  The table is empty, so the query matches no entry; the modify handler returns
  RESOURCE and leaves the table empty, where the add of the same message, under the
  same conditions, installs the flow.
\<close>

theorem modify_alloc_failure_is_not_add:
  "ind_core_flow_modify_handler scenario_env_no_memory scenario_flow_mod 7 scenario_empty =
     (INDIGO_ERROR_RESOURCE, scenario_empty)
   \<and> ind_core_ft scenario_empty = []
   \<and> length (ind_core_ft (snd (ind_core_flow_add_handler scenario_env_no_memory
                                  scenario_flow_mod 7 scenario_empty))) = 1"
proof -
  have "ind_core_flow_modify_handler scenario_env_no_memory scenario_flow_mod 7 scenario_empty =
     (INDIGO_ERROR_RESOURCE, scenario_empty)"
    by (simp add: ind_core_flow_modify_handler_def scenario_env_no_memory_def scenario_env_def)
  then show ?thesis
    using scenario_add_empty [of False]
    by (simp add: scenario_env_no_memory_def scenario_empty_def)
qed

section \<open>Allocation failure of the state struct\<close>

lemma flow_modify_alloc_failure:
  "\<not> INDIGO_MEM_ALLOC_ok env \<Longrightarrow>
   ind_core_flow_modify_handler env obj cxn_id s = (INDIGO_ERROR_RESOURCE, s)"
  by (simp add: ind_core_flow_modify_handler_def)

lemma flow_delete_alloc_failure:
  "\<not> INDIGO_MEM_ALLOC_ok env \<Longrightarrow>
   ind_core_flow_delete_handler env obj cxn_id s =
     (INDIGO_ERROR_RESOURCE, s\<lparr>released := released s + 1\<rparr>)"
  by (simp add: ind_core_flow_delete_handler_def of_object_delete_def)

lemma flow_stats_alloc_failure:
  "\<not> INDIGO_MEM_ALLOC_ok env \<Longrightarrow> fsr_match obj = Some m \<Longrightarrow>
   ind_core_flow_stats_request_handler env obj cxn_id s =
     (INDIGO_ERROR_RESOURCE, s\<lparr>released := released s + 1\<rparr>)"
  by (simp add: ind_core_flow_stats_request_handler_def of_object_delete_def)

lemma aggregate_stats_alloc_failure:
  "\<not> INDIGO_MEM_ALLOC_ok env \<Longrightarrow> fsr_match obj = Some m \<Longrightarrow>
   ind_core_aggregate_stats_request_handler env obj cxn_id s =
     (INDIGO_ERROR_RESOURCE, s\<lparr>released := released s + 1\<rparr>)"
  by (simp add: ind_core_aggregate_stats_request_handler_def of_object_delete_def)

text \<open>
  C1 does not hold of \<^verbatim>\<open>ind_core_flow_modify_handler\<close>. When \<^verbatim>\<open>INDIGO_MEM_ALLOC\<close> returns
  NULL, the delete, flow-statistics and aggregate-statistics handlers delete the
  request and return RESOURCE, sending nothing (the three lemmas above); the modify
  handler returns RESOURCE with the state as it was: nothing is sent, and the request
  is not deleted (the count of releases stays 0).
\<close>

theorem flow_modify_alloc_failure_leaks_request:
  "ind_core_flow_modify_handler scenario_env_no_memory scenario_flow_mod 7 scenario_empty =
     (INDIGO_ERROR_RESOURCE, scenario_empty)
   \<and> released scenario_empty = 0
   \<and> ind_core_flow_delete_handler scenario_env_no_memory scenario_flow_mod 7 scenario_empty =
     (INDIGO_ERROR_RESOURCE, scenario_empty\<lparr>released := 1\<rparr>)"
  by (simp add: ind_core_flow_modify_handler_def ind_core_flow_delete_handler_def
      of_object_delete_def scenario_env_no_memory_def scenario_env_def scenario_empty_def)

section \<open>The xid of replies\<close>

lemma port_stats_error_xid:
  "fst (indigo_port_stats_get env obj) \<noteq> INDIGO_ERROR_NONE \<Longrightarrow>
   sent (snd (ind_core_port_stats_request_handler env obj cxn_id s)) =
     sent s @ [OF_ERROR_MSG (psq_version obj) cxn_id 0 OF_ERROR_TYPE_0 OF_ERROR_CODE_0]"
  by (simp add: ind_core_port_stats_request_handler_def Let_def indigo_cxn_send_error_msg_def
      of_object_delete_def)

lemma port_stats_reply_xid:
  "fst (indigo_port_stats_get env obj) = INDIGO_ERROR_NONE \<Longrightarrow>
   sent (snd (ind_core_port_stats_request_handler env obj cxn_id s)) =
     sent s @ [OF_PORT_STATS_REPLY cxn_id ((snd (indigo_port_stats_get env obj))\<lparr>psr_xid := psq_xid obj\<rparr>)]"
  by (simp add: ind_core_port_stats_request_handler_def Let_def IND_CORE_MSG_SEND_def
      of_object_delete_def)

text \<open>
  C5 does not hold of \<^verbatim>\<open>ind_core_port_stats_request_handler\<close>. A port-statistics request
  with xid 4660 for which the port manager answers NOT_FOUND is answered by an error
  message with xid 0: the local \<^verbatim>\<open>xid\<close> is still its initial 0 in the failure branch.
\<close>

theorem port_stats_error_carries_xid_zero:
  "psq_xid scenario_port_stats_request = 4660
   \<and> ind_core_port_stats_request_handler scenario_env_port_fails scenario_port_stats_request 7
       scenario_empty =
     (INDIGO_ERROR_NOT_FOUND,
      scenario_empty\<lparr>sent := [OF_ERROR_MSG OF_VERSION_1_0 7 0 OF_ERROR_TYPE_0 OF_ERROR_CODE_0],
                     released := 1\<rparr>)"
  by (simp add: ind_core_port_stats_request_handler_def Let_def indigo_cxn_send_error_msg_def
      of_object_delete_def scenario_env_port_fails_def scenario_env_def
      scenario_port_stats_request_def scenario_empty_def)

section \<open>Entries of a flow-statistics reply\<close>

lemma entry_append_count:
  "length (r_entries (fst (flow_stats_entry_append env current_time reply e flow_stats))) =
     length (r_entries reply)
     + (if of_list_append_bind_ok env (r_length reply) (of_flow_stats_entry_len env (r_version reply))
        then 1 else 0)"
  by (simp add: flow_stats_entry_append_def Let_def split: option.splits)


lemma reply_get_count:
  "flow_stats_reply_get env state = Some reply \<Longrightarrow>
   length (r_entries reply) =
     (case fss_reply state of None \<Rightarrow> 0 | Some held \<Rightarrow> length (r_entries held))"
  by (auto simp: flow_stats_reply_get_def split: option.splits if_splits)

lemma entries_produced_step:
  "entries_produced (ind_core_flow_stats_iter env state (Some e) s) =
     entries_produced (state, s) + (if entry_appended env state e then 1 else 0)"
proof (cases "flow_stats_reply_get env state")
  case None
  then show ?thesis
    by (simp add: ind_core_flow_stats_iter_def entry_appended_def entries_produced_def)
next
  case (Some reply)
  note count = reply_get_count [OF Some]
  show ?thesis
    using count
    by (simp add: ind_core_flow_stats_iter_def entry_appended_def entries_produced_def Some
        Let_def entry_append_count IND_CORE_MSG_SEND_def)
qed

text \<open>
  C8, as the code has it. The callback of a flow-statistics task adds an entry to the
  reply for a matched flow-table entry exactly when a reply is at hand (held by the
  task or newly allocated), forwarding's \<^verbatim>\<open>flow_stats_get\<close> succeeds, the wire version of
  the entry's effects equals the version of the request, and the list append succeeds
  (third conjunct); the count of entries produced grows by one then and stays as it was
  otherwise (first conjunct). In particular an entry whose effects have another version
  than the request never adds one (second conjunct). An entry whose match or effects
  setter fails after the append stays in the reply as far as it was filled, and counts.
\<close>

theorem flow_stats_entry_contributed:
  "entries_produced (ind_core_flow_stats_iter env state (Some e) s) =
     entries_produced (state, s) + (if entry_appended env state e then 1 else 0)
   \<and> (fsr_version (fss_req state) \<noteq> eff_version (e_effects e) \<longrightarrow>
        entries_produced (ind_core_flow_stats_iter env state (Some e) s) =
          entries_produced (state, s))
   \<and> (entry_appended env state e \<longleftrightarrow>
        (\<exists>reply. flow_stats_reply_get env state = Some reply
           \<and> fst (indigo_fwd_flow_stats_get env (e_id e)) = INDIGO_ERROR_NONE
           \<and> fsr_version (fss_req state) = eff_version (e_effects e)
           \<and> of_list_append_bind_ok env (r_length reply)
                (of_flow_stats_entry_len env (r_version reply))))"
proof -
  have "fsr_version (fss_req state) \<noteq> eff_version (e_effects e) \<Longrightarrow>
        \<not> entry_appended env state e"
    by (simp add: entry_appended_def split: option.splits)
  moreover have "entry_appended env state e \<longleftrightarrow>
        (\<exists>reply. flow_stats_reply_get env state = Some reply
           \<and> fst (indigo_fwd_flow_stats_get env (e_id e)) = INDIGO_ERROR_NONE
           \<and> fsr_version (fss_req state) = eff_version (e_effects e)
           \<and> of_list_append_bind_ok env (r_length reply)
                (of_flow_stats_entry_len env (r_version reply)))"
    by (auto simp: entry_appended_def split: option.splits)
  ultimately show ?thesis
    using entries_produced_step [of env state e s] by auto
qed

text \<open>
  Its witness is scenario S6 of the specification: for a version 1.3 request, flow A
  (version 1.0) adds no entry and flow C (version 1.3) adds one.
\<close>

theorem flow_stats_entry_contributed_witness:
  "entries_produced (ind_core_flow_stats_iter scenario_env scenario_stats_state_1_3
                       (Some flow_A) scenario_empty) = 0
   \<and> entries_produced (ind_core_flow_stats_iter scenario_env scenario_stats_state_1_3
                         (Some flow_C) scenario_empty) = 1"
proof -
  have start: "entries_produced (scenario_stats_state_1_3, scenario_empty) = 0"
    by (simp add: entries_produced_def scenario_stats_state_1_3_def scenario_stats_state_def
        scenario_empty_def)
  have versions:
    "fsr_version (fss_req scenario_stats_state_1_3) \<noteq> eff_version (e_effects flow_A)"
    by (simp add: scenario_stats_state_1_3_def scenario_stats_state_def flow_A_def)
  have appended: "entry_appended scenario_env scenario_stats_state_1_3 flow_C"
    by (simp add: entry_appended_def flow_stats_reply_get_def scenario_stats_state_1_3_def
        scenario_stats_state_def scenario_flow_stats_request_def scenario_env_def flow_C_def
        flow_A_def)
  show ?thesis
    using flow_stats_entry_contributed [of scenario_env scenario_stats_state_1_3 flow_A scenario_empty]
      flow_stats_entry_contributed [of scenario_env scenario_stats_state_1_3 flow_C scenario_empty]
      start versions appended
    by simp
qed

text \<open>
  C8 as stated fails in the direction "if": flow A has the version of the request
  (1.0), but forwarding answers \<^verbatim>\<open>flow_stats_get\<close> with NOT_FOUND, the callback returns
  before the version test, and no entry is added for A.
\<close>

theorem flow_stats_same_version_not_contributed:
  "fsr_version (fss_req scenario_stats_state) = eff_version (e_effects flow_A)
   \<and> entries_produced (scenario_stats_state, scenario_with_A) = 0
   \<and> entries_produced (ind_core_flow_stats_iter scenario_env_stats_fail scenario_stats_state
                         (Some flow_A) scenario_with_A) = 0"
  by (simp add: ind_core_flow_stats_iter_def flow_stats_reply_get_def entries_produced_def Let_def
      scenario_env_stats_fail_def scenario_env_def scenario_stats_state_def
      scenario_flow_stats_request_def scenario_with_A_def scenario_empty_def flow_A_def)

section \<open>The size of the segments of a flow-statistics reply\<close>

text \<open>
  The task the handler starts is the per-entry callbacks over the matched entries,
  followed by the terminal callback.
\<close>

lemma flow_stats_task_run:
  "ft_iter_task env query (ind_core_flow_stats_iter env) state s =
     (let after_entries =
            flow_stats_entries_run env (filter (ft_entry_meta_match env query) (ind_core_ft s))
              (state, s)
      in ind_core_flow_stats_iter env (fst after_entries) None (snd after_entries))"
  by (simp add: ft_iter_task_def flow_stats_entries_run_def Let_def)










end
